theory Spec2Isabelle
  imports Complex_Main "HOL-Library.Sublist"
begin

section \<open>The CI controller of the sample platform (mod_ci/controllers.py)\<close>

text \<open>
  A shallow embedding of the scheduling pass (\<open>kvm_processor\<close>), the progress endpoint
  (\<open>progress_reporter\<close> and its handlers), the phase-time accumulator (\<open>set_avg_time\<close>)
  and the handling of a closed pull request in \<open>start_ci\<close>.

  The database session is a record of tables; each table is the list of its rows in
  insertion order. \<open>query.filter(...).first()\<close> is \<open>find\<close>, \<open>db.add\<close> appends a row,
  \<open>db.delete\<close> removes it, and an assignment to an attribute of a row rewrites the row in
  place. The state is the view of the session, which includes its own additions; \<open>commit\<close>
  has no counterpart, and what the database keeps of a request that ends without one is
  decided by the teardown of the application, outside the sources. A relationship
  attribute (\<open>test.progress\<close>, \<open>test.fork\<close>) is the lookup it stands for.

  What the code does to the outside (GitHub, libvirt, files, processes) is logged in
  further fields of the same record. An exception is a value: a function returns what it
  returned or raised, together with the state reached at that point. Where a step is long
  the function is cut into stages, each named after what it does and marked with the lines
  it embeds.
\<close>

subsection \<open>Enumerations\<close>

datatype TestStatus = preparation | building | testing | completed | canceled

datatype TestPlatform = linux | windows

datatype TestType = commit | pull_request

text \<open>class Status: the states posted to GitHub.\<close>

datatype Status = PENDING | SUCCESS | ERROR | FAILURE

datatype error =
    AttributeError | TypeError | ValueError | ZeroDivisionError | OverflowError
  | BadRequestKeyError | ApiError | OSError

datatype 'a result = Returned 'a | Raised error

fun platform_value :: "TestPlatform \<Rightarrow> string" where
  "platform_value linux = ''linux''"
| "platform_value windows = ''windows''"

subsection \<open>Time\<close>

text \<open>
  A datetime is its wall-clock reading in seconds together with its tzinfo (the UTC offset
  in seconds, None for a naive value). \<open>replace(tzinfo=None)\<close> keeps the reading.
  Subtraction is Python's: two naive values subtract their readings, two aware values
  their UTC instants, and a naive with an aware value raises TypeError. The result is
  \<open>total_seconds()\<close> of the difference.
\<close>

record datetime =
  wall :: rat
  tzinfo :: "rat option"

definition naive :: "rat \<Rightarrow> datetime" where
  "naive w = \<lparr>wall = w, tzinfo = None\<rparr>"

definition replace_tzinfo_None :: "datetime \<Rightarrow> datetime" where
  "replace_tzinfo_None d = d\<lparr>tzinfo := None\<rparr>"

definition dt_sub :: "datetime \<Rightarrow> datetime \<Rightarrow> error + rat" where
  "dt_sub a b =
     (case (tzinfo a, tzinfo b) of
        (None, None) \<Rightarrow> Inr (wall a - wall b)
      | (Some oa, Some ob) \<Rightarrow> Inr ((wall a - oa) - (wall b - ob))
      | _ \<Rightarrow> Inl TypeError)"

subsection \<open>Numbers kept in text columns\<close>

text \<open>
  GeneralData.value is a text column. A value written with \<open>str(n)\<close> is modelled by the
  number it denotes (\<open>Num\<close>), any other text by \<open>Txt\<close>; \<open>str\<close> followed by \<open>float\<close> gives
  the number back. \<open>int(x)\<close> of a float truncates towards zero; \<open>int(s)\<close> of a text accepts
  whole numbers only.
\<close>

datatype gval = Num rat | Txt string

definition py_int :: "rat \<Rightarrow> int" where
  "py_int x = (if 0 \<le> x then \<lfloor>x\<rfloor> else \<lceil>x\<rceil>)"

definition float_of :: "gval \<Rightarrow> error + rat" where
  "float_of v = (case v of Num q \<Rightarrow> Inr q | Txt _ \<Rightarrow> Inl ValueError)"

definition int_of :: "gval \<Rightarrow> error + int" where
  "int_of v =
     (case v of
        Num q \<Rightarrow> if q = of_int \<lfloor>q\<rfloor> then Inr \<lfloor>q\<rfloor> else Inl ValueError
      | Txt _ \<Rightarrow> Inl ValueError)"

subsection \<open>Floats\<close>

text \<open>
  A Python float is an IEEE double: a finite number, an infinity or NaN. A finite float
  is modelled by its value, a rational number, so the two zeros are one value.
  \<open>to_double\<close> is the rounding that ends every operation: the nearest double, a tie
  going to the even significand of 53 bits, with gradual underflow below \<open>2^-1022\<close> and
  an infinity where the rounded magnitude reaches \<open>2^1024\<close>. On finite floats \<open>+\<close>, \<open>-\<close>
  and \<open>*\<close> give the exact result rounded; \<open>int / int\<close> rounds the exact quotient and
  \<open>float(text)\<close> the number that the text denotes.
\<close>

datatype float = Finite rat | PInf | NInf | NaN

fun bitlen :: "nat \<Rightarrow> nat" where
  \<comment> \<open>the number of binary digits\<close>
  "bitlen n = (if n = 0 then 0 else Suc (bitlen (n div 2)))"

declare bitlen.simps [simp del]

definition pow2 :: "int \<Rightarrow> rat" where
  "pow2 k = (if 0 \<le> k then 2 ^ nat k else 1 / 2 ^ nat (- k))"

definition exponent :: "rat \<Rightarrow> int" where
  \<comment> \<open>of a positive number \<open>a\<close>: the \<open>e\<close> with \<open>2^e \<le> a < 2^(e + 1)\<close>\<close>
  "exponent a =
     (if 1 \<le> a then int (bitlen (nat \<lfloor>a\<rfloor>)) - 1 else - int (bitlen (nat (\<lceil>1 / a\<rceil> - 1))))"

definition round_half_even :: "rat \<Rightarrow> int" where
  "round_half_even x =
     (let f = \<lfloor>x\<rfloor>; d = x - of_int f
      in if d < 1 / 2 then f else if 1 / 2 < d then f + 1 else if even f then f else f + 1)"

definition to_double :: "rat \<Rightarrow> float" where
  "to_double x =
     (if x = 0 then Finite 0
      else
        (let a = \<bar>x\<bar>;
             e = max (exponent a) (- 1022);
             q = pow2 (e - 52);
             y = of_int (round_half_even (a / q)) * q
         in if pow2 1024 \<le> y then (if 0 < x then PInf else NInf)
            else Finite (if 0 < x then y else - y)))"

fun fneg :: "float \<Rightarrow> float" where
  "fneg (Finite a) = Finite (- a)"
| "fneg PInf = NInf"
| "fneg NInf = PInf"
| "fneg NaN = NaN"

fun fadd :: "float \<Rightarrow> float \<Rightarrow> float" where
  "fadd (Finite a) (Finite b) = to_double (a + b)"
| "fadd NaN y = NaN"
| "fadd x NaN = NaN"
| "fadd PInf NInf = NaN"
| "fadd NInf PInf = NaN"
| "fadd PInf y = PInf"
| "fadd x PInf = PInf"
| "fadd NInf y = NInf"
| "fadd x NInf = NInf"

definition fsub :: "float \<Rightarrow> float \<Rightarrow> float" where
  "fsub x y = fadd x (fneg y)"

fun fsign :: "float \<Rightarrow> int" where
  "fsign (Finite a) = (if 0 < a then 1 else if a < 0 then - 1 else 0)"
| "fsign PInf = 1"
| "fsign NInf = - 1"
| "fsign NaN = 0"

fun fmul :: "float \<Rightarrow> float \<Rightarrow> float" where
  "fmul (Finite a) (Finite b) = to_double (a * b)"
| "fmul NaN y = NaN"
| "fmul x NaN = NaN"
| "fmul x y = (if fsign x * fsign y = 0 then NaN else if 0 < fsign x * fsign y then PInf else NInf)"

fun fdiv :: "float \<Rightarrow> rat \<Rightarrow> float" where
  \<comment> \<open>the division of C by a finite divisor that is not zero\<close>
  "fdiv (Finite a) w = to_double (a / w)"
| "fdiv PInf w = (if 0 < w then PInf else NInf)"
| "fdiv NInf w = (if 0 < w then NInf else PInf)"
| "fdiv NaN w = NaN"

text \<open>
  \<open>x // w\<close> for a finite \<open>w\<close> that is not zero, as \<open>float_floor_div\<close> of CPython computes it
  (a divisor zero raises ZeroDivisionError before). The remainder \<open>fmod(x, w)\<close> is exact and
  has the sign of \<open>x\<close>; the quotient \<open>(x - mod) / w\<close> is rounded at the subtraction and at
  the division, lowered by one when the remainder is not zero and differs in sign from
  the divisor, and then snapped to the whole number below it or, if it lies more than a
  half above that, to the next one. Of an infinity or NaN the remainder is NaN, and so is
  the result.
\<close>

definition fmod :: "rat \<Rightarrow> rat \<Rightarrow> rat" where
  \<comment> \<open>what is left of \<open>v\<close> after the multiple of \<open>w\<close> given by the quotient cut towards zero\<close>
  "fmod v w = v - w * of_int (py_int (v / w))"

definition floordiv :: "float \<Rightarrow> rat \<Rightarrow> float" where
  "floordiv x w =
     (case x of
        Finite v \<Rightarrow>
          (let md = fmod v w;
               dv = fdiv (fsub (Finite v) (Finite md)) w;
               dv = (if md \<noteq> 0 \<and> (w < 0) \<noteq> (md < 0) then fsub dv (Finite 1) else dv)
           in case dv of
                Finite d \<Rightarrow>
                  if d = 0 then Finite 0
                  else
                    (let fl = Finite (of_int \<lfloor>d\<rfloor>)
                     in case fsub (Finite d) fl of
                          Finite r \<Rightarrow> if 1 / 2 < r then fadd fl (Finite 1) else fl
                        | _ \<Rightarrow> fl)
              | _ \<Rightarrow> dv)
      | _ \<Rightarrow> NaN)"

text \<open>
  A float read from and written to a text column. \<open>float(text)\<close> accepts, besides the
  numbers, the texts \<open>inf\<close>, \<open>infinity\<close> and \<open>nan\<close> in any case, with a sign and between
  ASCII white space; a float that is not finite is kept as the text that \<open>str\<close> gives it.
  \<open>timedelta.total_seconds()\<close> is a division of whole numbers of microseconds.
\<close>

definition lower :: "char \<Rightarrow> char" where
  "lower c =
     (case map_of (zip ''ABCDEFGHIJKLMNOPQRSTUVWXYZ'' ''abcdefghijklmnopqrstuvwxyz'') c of
        Some d \<Rightarrow> d
      | None \<Rightarrow> c)"

definition whitespace :: "char \<Rightarrow> bool" where
  "whitespace c = (c \<in> set [CHR '' '', CHR 0x09, CHR 0x0A, CHR 0x0B, CHR 0x0C, CHR 0x0D])"

definition strip :: "string \<Rightarrow> string" where
  "strip t = rev (dropWhile whitespace (rev (dropWhile whitespace t)))"

definition special_float :: "string \<Rightarrow> float option" where
  "special_float t =
     (let u = map lower (strip t);
          negative = (take 1 u = ''-'');
          body = (if take 1 u = ''-'' \<or> take 1 u = ''+'' then drop 1 u else u)
      in if body = ''inf'' \<or> body = ''infinity'' then Some (if negative then NInf else PInf)
         else if body = ''nan'' then Some NaN
         else None)"

definition float_text :: "gval \<Rightarrow> error + float" where
  "float_text v =
     (case v of
        Num q \<Rightarrow> Inr (to_double q)
      | Txt t \<Rightarrow> (case special_float t of Some x \<Rightarrow> Inr x | None \<Rightarrow> Inl ValueError))"

fun text_of_float :: "float \<Rightarrow> gval" where
  "text_of_float (Finite a) = Num a"
| "text_of_float PInf = Txt ''inf''"
| "text_of_float NInf = Txt ''-inf''"
| "text_of_float NaN = Txt ''nan''"

definition total_seconds :: "rat \<Rightarrow> float" where
  "total_seconds d = to_double d"

subsection \<open>Rows\<close>

record Test =
  t_id :: int
  t_platform :: TestPlatform
  t_test_type :: TestType
  t_fork_id :: int
  t_branch :: string
  t_commit :: string
  t_pr_nr :: int
  t_token :: string

record TestProgress =
  p_test_id :: int
  p_status :: TestStatus
  p_message :: string
  p_timestamp :: datetime

record Kvm =
  k_name :: string
  k_test_id :: int
  k_timestamp :: rat
  k_timestamp_prep_finished :: "rat option"
  k_timestamp_build_finished :: "rat option"

record GeneralData =
  gd_key :: string
  gd_value :: gval

record TestResult =
  r_test_id :: int
  r_regression_test_id :: int
  r_runtime :: int
  r_exit_code :: int
  r_expected_rc :: int

record TestResultFile =
  f_test_id :: int
  f_regression_test_id :: int
  f_regression_test_output_id :: int
  f_expected :: string
  f_got :: "string option"

record RegressionTestOutput =
  o_id :: int
  o_regression_id :: int
  o_correct :: string
  o_ignore :: bool

record RegressionTest =
  rt_id :: int
  rt_command :: string
  rt_input_type :: string
  rt_output_type :: string
  rt_expected_rc :: int
  rt_sample_filename :: string
  rt_sample_sha :: string
  rt_output_files :: "RegressionTestOutput list"

record Category =
  c_id :: int
  c_name :: string
  c_regression_tests :: "RegressionTest list"

record Fork =
  fk_id :: int
  fk_github :: string

record MaintenanceMode =
  m_platform :: TestPlatform
  m_disabled :: bool

subsection \<open>What leaves the process\<close>

text \<open>
  A commit status posted to GitHub; \<open>gs_target\<close> is the test id the \<open>target_url\<close> is
  built from.
\<close>

record gh_status =
  gs_commit :: string
  gs_state :: Status
  gs_description :: string
  gs_context :: string
  gs_target :: int

datatype vm_call = Destroy | RevertToSnapshot | Create

datatype xml = Element string "(string \<times> string) list" string "xml list"

record comment_call =
  cc_test_id :: int
  cc_state :: Status
  cc_pr_nr :: int
  cc_platform :: TestPlatform

subsection \<open>The state\<close>

record state =
  tests :: "Test list"
  progress :: "TestProgress list"
  kvm :: "Kvm list"
  general_data :: "GeneralData list"
  test_results :: "TestResult list"
  test_result_files :: "TestResultFile list"
  regression_tests :: "RegressionTest list"
  regression_test_outputs :: "RegressionTestOutput list"
  categories :: "Category list"
  forks :: "Fork list"
  maintenance_modes :: "MaintenanceMode list"
  statuses_posted :: "gh_status list"
  pr_comments :: "comment_call list"
  badges :: "(Status \<times> TestPlatform) list"
  platforms_started :: "TestPlatform list"
  vm_calls :: "vm_call list"
  files :: "string \<rightharpoonup> string"
  xml_files :: "(string \<times> xml) list"

definition gd_first :: "string \<Rightarrow> state \<Rightarrow> GeneralData option" where
  \<comment> \<open>GeneralData.query.filter(GeneralData.key == k).first()\<close>
  "gd_first k s = find (\<lambda>r. gd_key r = k) (general_data s)"

fun assign_first :: "('a \<Rightarrow> bool) \<Rightarrow> ('a \<Rightarrow> 'a) \<Rightarrow> 'a list \<Rightarrow> 'a list" where
  \<comment> \<open>an attribute assignment on the row that \<open>first()\<close> returned\<close>
  "assign_first P f [] = []"
| "assign_first P f (x # xs) = (if P x then f x # xs else x # assign_first P f xs)"

definition gd_assign :: "string \<Rightarrow> gval \<Rightarrow> state \<Rightarrow> state" where
  "gd_assign k v s =
     s\<lparr>general_data := assign_first (\<lambda>r. gd_key r = k) (\<lambda>r. r\<lparr>gd_value := v\<rparr>) (general_data s)\<rparr>"

subsection \<open>set_avg_time\<close>

definition set_avg_time :: "TestPlatform \<Rightarrow> string \<Rightarrow> rat \<Rightarrow> state \<Rightarrow> unit result \<times> state" where
  "set_avg_time platform process_type time_taken s =
     (let val_key = ''avg_'' @ process_type @ ''_time_'' @ platform_value platform;
          count_key = ''avg_'' @ process_type @ ''_count_'' @ platform_value platform
      in case gd_first count_key s of
           None \<Rightarrow>
             (Returned (),
              s\<lparr>general_data := general_data s @
                  [\<lparr>gd_key = count_key, gd_value = Num 1\<rparr>,
                   \<lparr>gd_key = val_key, gd_value = Num time_taken\<rparr>]\<rparr>)
         | Some current_avg_count \<Rightarrow>
             (case int_of (gd_value current_avg_count) of
                Inl e \<Rightarrow> (Raised e, s)
              | Inr avg_count \<Rightarrow>
                  (case gd_first val_key s of
                     None \<Rightarrow> (Raised AttributeError, s)
                   | Some current_average \<Rightarrow>
                       (case float_of (gd_value current_average) of
                          Inl e \<Rightarrow> (Raised e, s)
                        | Inr v \<Rightarrow>
                            (let avg_value = py_int v;
                                 new_average =
                                   (of_int (avg_value * avg_count) + time_taken) / of_int (avg_count + 1)
                             in (Returned (),
                                 gd_assign val_key (Num new_average)
                                   (gd_assign count_key (Num (of_int (avg_count + 1))) s)))))))"

subsection \<open>The environment of a call\<close>

datatype sync_outcome = Synced | SyncFailed | NotMergeable

text \<open>
  What a call reads from outside the database and what the model does not compute:
  the clock (\<open>now\<close> is \<open>datetime.datetime.now()\<close>, \<open>default_timestamp\<close> the timestamp that
  \<open>TestProgress\<close> gives an event created without one), the configuration, the answers of
  libvirt, git and GitHub, the copy of the badge file, and the library functions
  \<open>secure_filename\<close>, \<open>sha256\<close> and \<open>os.path.splitext\<close>. \<open>like\<close> is the LIKE of the
  database, the pattern first: what it matches, and whether it tells upper from lower
  case, is decided by the database and the collation of the column. The methods of
  \<open>RegressionTestOutput\<close> that build file names and \<open>Test.get_customized_regressiontests\<close>
  are declared in modules that are not part of the sources; they are parameters too.
\<close>

record env =
  rank_canceled :: int
  now :: rat
  default_timestamp :: datetime
  repository_owner :: string
  repository :: string
  sample_repository :: string
  kvm_max_runtime :: int
  conn_ok :: bool
  vm_found :: bool
  vm_shutoff :: bool
  destroy_ok :: bool
  has_current_snapshot :: bool
  revert_ok :: bool
  create_ok :: bool
  sync :: "Test \<Rightarrow> sync_outcome"
  like :: "string \<Rightarrow> string \<Rightarrow> bool"
  post_fails :: "gh_status \<Rightarrow> bool"
  copyfile_fails :: bool
  report_url :: "Test \<Rightarrow> string"
  get_customized_regressiontests :: "Test \<Rightarrow> int list"
  filename_correct :: "RegressionTestOutput \<Rightarrow> string"
  create_correct_filename :: "RegressionTestOutput \<Rightarrow> string \<Rightarrow> string"
  filename_expected :: "RegressionTestOutput \<Rightarrow> string \<Rightarrow> string"
  secure_filename :: "string \<Rightarrow> string"
  sha256 :: "string \<Rightarrow> string"
  splitext :: "string \<Rightarrow> string \<times> string"

definition and_then ::
  "'a result \<times> state \<Rightarrow> ('a \<Rightarrow> state \<Rightarrow> 'b result \<times> state) \<Rightarrow> 'b result \<times> state" where
  \<comment> \<open>the next statement runs only if the previous one did not raise\<close>
  "and_then r f = (case r of (Raised e, s) \<Rightarrow> (Raised e, s) | (Returned x, s) \<Rightarrow> f x s)"

definition is_main_repo :: "env \<Rightarrow> string \<Rightarrow> bool" where
  "is_main_repo env repo_url = sublist (repository_owner env @ ''/'' @ repository env) repo_url"

definition post_status :: "env \<Rightarrow> gh_status \<Rightarrow> state \<Rightarrow> state option" where
  \<comment> \<open>\<open>repository.statuses(commit).post(...)\<close>: None when the call raises ApiError\<close>
  "post_status env st s =
     (if post_fails env st then None else Some (s\<lparr>statuses_posted := statuses_posted s @ [st]\<rparr>))"

subsection \<open>Steps of the progress order\<close>

text \<open>
  Modelled from the spec: \<open>TestStatus.progress_step\<close> and \<open>TestStatus.from_string\<close> are
  declared in mod_test.models, which is not part of the sources. By section 4.3 of the
  spec the step of a status is the status in the rank order preparation(0) <
  building(1) < testing(2) < completed(3): steps are compared by rank, and a step is
  completed or canceled exactly when its status is. The spec gives canceled no rank; it
  is the parameter \<open>rank_canceled\<close>. \<open>from_string\<close> reads a status by its name and
  raises ValueError on any other text.
\<close>

datatype step = Step TestStatus int

fun rank :: "env \<Rightarrow> TestStatus \<Rightarrow> int" where
  "rank env preparation = 0"
| "rank env building = 1"
| "rank env testing = 2"
| "rank env completed = 3"
| "rank env canceled = rank_canceled env"

definition progress_step :: "env \<Rightarrow> TestStatus \<Rightarrow> step" where
  "progress_step env status = Step status (rank env status)"

fun step_status :: "step \<Rightarrow> TestStatus" where
  "step_status (Step status r) = status"

fun step_rank :: "step \<Rightarrow> int" where
  "step_rank (Step status r) = r"

definition from_string :: "string \<Rightarrow> error + TestStatus" where
  "from_string x =
     (if x = ''preparation'' then Inr preparation
      else if x = ''building'' then Inr building
      else if x = ''testing'' then Inr testing
      else if x = ''completed'' then Inr completed
      else if x = ''canceled'' then Inr canceled
      else Inl ValueError)"

subsection \<open>The request of the progress endpoint\<close>

text \<open>
  \<open>request.form\<close> and \<open>request.files\<close>, field by field; None is an absent key. The ids are
  the integers the database compares the submitted text with.
\<close>

record request =
  rq_type :: "string option"
  rq_status :: "string option"
  rq_message :: "string option"
  rq_test_id :: "int option"
  rq_test_file_id :: "int option"
  rq_runTime :: "int option"
  rq_exitCode :: "int option"
  rq_file :: "(string \<times> string) option"

subsection \<open>progress_type_request\<close>

definition test_progress :: "state \<Rightarrow> Test \<Rightarrow> TestProgress list" where
  \<comment> \<open>the relationship \<open>test.progress\<close>\<close>
  "test_progress s test = filter (\<lambda>p. p_test_id p = t_id test) (progress s)"

definition test_fork :: "state \<Rightarrow> Test \<Rightarrow> Fork option" where
  \<comment> \<open>the relationship \<open>test.fork\<close>\<close>
  "test_fork s test = find (\<lambda>f. fk_id f = t_fork_id test) (forks s)"

definition kvm_by_test :: "int \<Rightarrow> state \<Rightarrow> Kvm option" where
  \<comment> \<open>Kvm.query.filter(Kvm.test_id == test_id).first()\<close>
  "kvm_by_test test_id s = find (\<lambda>k. k_test_id k = test_id) (kvm s)"

definition kvm_assign :: "int \<Rightarrow> (Kvm \<Rightarrow> Kvm) \<Rightarrow> state \<Rightarrow> state" where
  "kvm_assign test_id f s = s\<lparr>kvm := assign_first (\<lambda>k. k_test_id k = test_id) f (kvm s)\<rparr>"

text \<open>
  Lines 800 to 832. The result None is the \<open>return False\<close> of a closed test; otherwise the
  status and message to record.
\<close>

definition check_order ::
  "env \<Rightarrow> Test \<Rightarrow> int \<Rightarrow> TestStatus \<Rightarrow> string \<Rightarrow> state
     \<Rightarrow> (TestStatus \<times> string) option result \<times> state" where
  "check_order env test test_id status0 message0 s =
     (let current_status = progress_step env status0
      in if length (test_progress s test) \<noteq> 0 then
           (let last_status = progress_step env (p_status (last (test_progress s test)))
            in if step_status last_status \<in> {completed, canceled} then (Returned None, s)
               else
                 (let (status, message) =
                        (if step_rank last_status > step_rank current_status
                         then (canceled, ''Duplicate Entries'') else (status0, message0))
                  in if step_rank last_status < step_rank current_status then
                       (let kvm_entry = kvm_by_test test_id s
                        in if status = building then
                             (case kvm_entry of
                                None \<Rightarrow> (Raised AttributeError, s)
                              | Some k \<Rightarrow>
                                  (let prep_finish_time = now env;
                                       s1 = kvm_assign test_id
                                              (\<lambda>k. k\<lparr>k_timestamp_prep_finished := Some prep_finish_time\<rparr>) s;
                                       time_diff = prep_finish_time - k_timestamp k
                                   in and_then (set_avg_time (t_platform test) ''prep'' time_diff s1)
                                        (\<lambda>_ s2. (Returned (Some (status, message)), s2))))
                           else if status = testing then
                             (case kvm_entry of
                                None \<Rightarrow> (Raised AttributeError, s)
                              | Some k \<Rightarrow>
                                  (let build_finish_time = now env;
                                       s1 = kvm_assign test_id
                                              (\<lambda>k. k\<lparr>k_timestamp_build_finished := Some build_finish_time\<rparr>) s
                                   in case k_timestamp_prep_finished k of
                                        None \<Rightarrow> (Raised TypeError, s1)
                                      | Some prep_finished \<Rightarrow>
                                          and_then
                                            (set_avg_time (t_platform test) ''build''
                                               (build_finish_time - prep_finished) s1)
                                            (\<lambda>_ s2. (Returned (Some (status, message)), s2))))
                           else (Returned (Some (status, message)), s))
                     else (Returned (Some (status, message)), s)))
         else (Returned (Some (status0, message0)), s))"

text \<open>Lines 841 to 850: a completed commit test of the main repository moves the pin.\<close>

definition store_fetch_commit :: "env \<Rightarrow> Test \<Rightarrow> TestStatus \<Rightarrow> state \<Rightarrow> unit result \<times> state" where
  "store_fetch_commit env test status s =
     (if status \<noteq> completed then (Returned (), s)
      else case test_fork s test of
        None \<Rightarrow> (Raised AttributeError, s)
      | Some fork \<Rightarrow>
          if \<not> is_main_repo env (fk_github fork) then (Returned (), s)
          else
            (let commit_name = ''fetch_commit_'' @ platform_value (t_platform test)
             in case gd_first commit_name s of
                  None \<Rightarrow> (Raised AttributeError, s)
                | Some commit_row \<Rightarrow>
                    (let fetch_commit =
                           find (\<lambda>t. Txt (t_commit t) = gd_value commit_row \<and> t_platform t = t_platform test)
                             (tests s)
                     in if t_test_type test \<noteq> TestType.commit then (Returned (), s)
                        else case fetch_commit of
                          None \<Rightarrow> (Raised AttributeError, s)
                        | Some fc \<Rightarrow>
                            if t_id test > t_id fc
                            then (Returned (), gd_assign commit_name (Txt (t_commit test)) s)
                            else (Returned (), s))))"

text \<open>
  Lines 860 to 892, the first computation of the average: the progress rows of the
  finished tests of the platform, grouped by test; the span of a test is from the first
  to the last timestamp of its group. A group is never empty.
\<close>

definition first_average :: "Test \<Rightarrow> state \<Rightarrow> int" where
  "first_average test s =
     (let platform_tests = map t_id (filter (\<lambda>t. t_platform t = t_platform test) (tests s));
          finished_tests =
            map p_test_id
              (filter (\<lambda>p. p_status p \<in> {canceled, completed} \<and> p_test_id p \<in> set platform_tests)
                 (progress s));
          finished_tests_progress =
            filter (\<lambda>p. p_test_id p \<in> set finished_tests
                       \<and> p_status p \<in> {preparation, completed, canceled}) (progress s);
          times =
            map (\<lambda>i. map p_timestamp (filter (\<lambda>p. p_test_id p = i) finished_tests_progress))
              (remdups (map p_test_id finished_tests_progress));
          total_time = sum_list (map (\<lambda>parts. py_int (wall (last parts) - wall (hd parts))) times)
      in if length times \<noteq> 0 then total_time div int (length times) else 0)"

text \<open>
  Modelled from the spec: \<open>Test.progress_data\<close> is declared in mod_test.models, which is not
  part of the sources. By section 4.5 of the spec its start and end are the span of the
  test's progress: the timestamps of its first and of its last event. A test without
  events has no span.
\<close>

definition progress_data :: "state \<Rightarrow> Test \<Rightarrow> (datetime \<times> datetime) option" where
  "progress_data s test =
     (case test_progress s test of
        [] \<Rightarrow> None
      | p # ps \<Rightarrow> Some (p_timestamp p, p_timestamp (last (p # ps))))"

text \<open>
  Lines 894 to 913, the update of an average that exists. The two counts are whole
  numbers and every other number is a float: \<open>number_test\<close> is the rounded quotient of the
  counts (a quotient beyond the doubles raises OverflowError), \<open>1\<close> becomes \<open>1.0\<close>, and the
  product, the sum and the floor division are those of floats.
\<close>

definition update_average :: "Test \<Rightarrow> GeneralData \<Rightarrow> state \<Rightarrow> unit result \<times> state" where
  "update_average test current_average s =
     (let all_results = int (length (test_results s));
          regression_test_count = int (length (regression_tests s))
      in if regression_test_count = 0 then (Raised ZeroDivisionError, s)
         else
           (case to_double (of_int all_results / of_int regression_test_count) of
              Finite number_test \<Rightarrow>
                (case float_text (gd_value current_average) of
                   Inl e \<Rightarrow> (Raised e, s)
                 | Inr v \<Rightarrow>
                     (let updated_average = fmul v (fsub (Finite number_test) (Finite 1))
                      in case progress_data s test of
                           None \<Rightarrow> (Raised AttributeError, s)
                         | Some (start_time0, end_time0) \<Rightarrow>
                             (let end_time = (if tzinfo end_time0 \<noteq> None
                                              then replace_tzinfo_None end_time0 else end_time0);
                                  start_time = (if tzinfo start_time0 \<noteq> None
                                                then replace_tzinfo_None start_time0 else start_time0)
                              in case dt_sub end_time start_time of
                                   Inl e \<Rightarrow> (Raised e, s)
                                 | Inr last_running_test \<Rightarrow>
                                     (let updated_average =
                                            fadd updated_average (total_seconds last_running_test)
                                      in if number_test = 0 then (Raised ZeroDivisionError, s)
                                         else (Returned (),
                                               gd_assign (gd_key current_average)
                                                 (text_of_float (floordiv updated_average number_test))
                                                 s)))))
            | _ \<Rightarrow> (Raised OverflowError, s)))"

text \<open>Lines 853 to 920: a terminal status updates the average and removes the Kvm entry.\<close>

definition close_test :: "Test \<Rightarrow> int \<Rightarrow> TestStatus \<Rightarrow> state \<Rightarrow> unit result \<times> state" where
  "close_test test test_id status s =
     (if status \<notin> {completed, canceled} then (Returned (), s)
      else
        (let var_average = ''average_time_'' @ platform_value (t_platform test)
         in and_then
              (case gd_first var_average s of
                 None \<Rightarrow>
                   (Returned (),
                    s\<lparr>general_data := general_data s @
                        [\<lparr>gd_key = var_average, gd_value = Num (of_int (first_average test s))\<rparr>]\<rparr>)
               | Some current_average \<Rightarrow> update_average test current_average s)
              (\<lambda>_ s1. case kvm_by_test test_id s1 of
                         None \<Rightarrow> (Returned (), s1)
                       | Some k \<Rightarrow> (Returned (), s1\<lparr>kvm := remove1 k (kvm s1)\<rparr>))))"

text \<open>Lines 937 to 951: the two counts that decide the outcome of a completed test.\<close>

definition crashes :: "Test \<Rightarrow> state \<Rightarrow> nat" where
  "crashes test s =
     length (filter (\<lambda>r. r_test_id r = t_id test \<and> r_exit_code r \<noteq> r_expected_rc r) (test_results s))"

definition results_zero_rc :: "state \<Rightarrow> int list" where
  "results_zero_rc s = map rt_id (filter (\<lambda>t. rt_expected_rc t = 0) (regression_tests s))"

definition results :: "Test \<Rightarrow> state \<Rightarrow> nat" where
  "results test s =
     length (filter (\<lambda>f. f_test_id f = t_id test
                        \<and> f_regression_test_id f \<in> set (results_zero_rc s)
                        \<and> f_got f \<noteq> None) (test_result_files s))"

definition comment_pr :: "int \<Rightarrow> Status \<Rightarrow> int \<Rightarrow> TestPlatform \<Rightarrow> state \<Rightarrow> state" where
  \<comment> \<open>the report is rendered and sent to GitHub; every failure of that is caught and logged\<close>
  "comment_pr test_id st pr_nr platform s =
     s\<lparr>pr_comments := pr_comments s @
         [\<lparr>cc_test_id = test_id, cc_state = st, cc_pr_nr = pr_nr, cc_platform = platform\<rparr>]\<rparr>"

definition update_build_badge :: "env \<Rightarrow> Status \<Rightarrow> Test \<Rightarrow> state \<Rightarrow> unit result \<times> state" where
  \<comment> \<open>the badge of the state is copied over the badge of the platform; the copy can raise\<close>
  "update_build_badge env st test s =
     (if t_test_type test \<noteq> TestType.commit then (Returned (), s)
      else case test_fork s test of
        None \<Rightarrow> (Raised AttributeError, s)
      | Some fork \<Rightarrow>
          if \<not> is_main_repo env (fk_github fork) then (Returned (), s)
          else if copyfile_fails env then (Raised OSError, s)
          else (Returned (), s\<lparr>badges := badges s @ [(st, t_platform test)]\<rparr>))"

definition start_platforms :: "TestPlatform \<Rightarrow> state \<Rightarrow> state" where
  \<comment> \<open>a process running \<open>kvm_processor\<close> for the platform is started after a delay\<close>
  "start_platforms platform s = s\<lparr>platforms_started := platforms_started s @ [platform]\<rparr>"

text \<open>Lines 922 to 979: the status posted to GitHub, and the next test started.\<close>

definition outcome :: "Test \<Rightarrow> state \<Rightarrow> Status \<times> string" where
  "outcome test s =
     (if crashes test s > 0 \<or> results test s > 0
      then (FAILURE, ''Not all tests completed successfully, please check'')
      else (SUCCESS, ''Tests completed''))"

definition post_update ::
  "env \<Rightarrow> Test \<Rightarrow> TestStatus \<Rightarrow> TestProgress \<Rightarrow> state \<Rightarrow> bool result \<times> state" where
  "post_update env test status progress_row s =
     and_then
       (if status = canceled
        then (Returned (ERROR, ''Tests aborted due to an error; please check''), s)
        else if status = completed then
          (let (st, message) = outcome test s;
               s1 = (if t_test_type test = pull_request
                     then comment_pr (t_id test) st (t_pr_nr test) (t_platform test) s else s)
           in and_then (update_build_badge env st test s1) (\<lambda>_ s2. (Returned (st, message), s2)))
        else (Returned (PENDING, p_message progress_row), s))
       (\<lambda>(st, message) s1.
          (let post = \<lparr>gs_commit = t_commit test, gs_state = st, gs_description = message,
                       gs_context = ''CI - '' @ platform_value (t_platform test),
                       gs_target = t_id test\<rparr>;
               s2 = (case post_status env post s1 of None \<Rightarrow> s1 | Some s' \<Rightarrow> s');
               s3 = (if status \<in> {completed, canceled}
                     then start_platforms (t_platform test) s2 else s2)
           in (Returned True, s3)))"

definition progress_type_request ::
  "env \<Rightarrow> Test \<Rightarrow> int \<Rightarrow> request \<Rightarrow> state \<Rightarrow> bool result \<times> state" where
  "progress_type_request env test test_id request s =
     (case rq_status request of
        None \<Rightarrow> (Raised BadRequestKeyError, s)
      | Some text \<Rightarrow>
          (case from_string text of
             Inl e \<Rightarrow> (Raised e, s)
           | Inr status0 \<Rightarrow>
               (case rq_message request of
                  None \<Rightarrow> (Raised BadRequestKeyError, s)
                | Some message0 \<Rightarrow>
                    and_then (check_order env test test_id status0 message0 s)
                      (\<lambda>checked s1.
                         case checked of
                           None \<Rightarrow> (Returned False, s1)
                         | Some (status, message) \<Rightarrow>
                             (let progress_row =
                                    \<lparr>p_test_id = t_id test, p_status = status, p_message = message,
                                     p_timestamp = default_timestamp env\<rparr>;
                                  s2 = s1\<lparr>progress := progress s1 @ [progress_row]\<rparr>
                              in and_then (store_fetch_commit env test status s2)
                                   (\<lambda>_ s3. and_then (close_test test test_id status s3)
                                      (\<lambda>_ s4. post_update env test status progress_row s4)))))))"

subsection \<open>The other handlers of the progress endpoint\<close>

fun str_nat :: "nat \<Rightarrow> string" where
  "str_nat n = (if n < 10 then [''0123456789'' ! n] else str_nat (n div 10) @ [''0123456789'' ! (n mod 10)])"

declare str_nat.simps [simp del]

definition str_int :: "int \<Rightarrow> string" where
  \<comment> \<open>\<open>str(i)\<close>\<close>
  "str_int i = (if i < 0 then CHR ''-'' # str_nat (nat (- i)) else str_nat (nat i))"

definition path_join :: "string \<Rightarrow> string \<Rightarrow> string" where
  \<comment> \<open>\<open>os.path.join\<close> of two components\<close>
  "path_join a b =
     (if b \<noteq> [] \<and> hd b = CHR ''/'' then b
      else if a = [] \<or> last a = CHR ''/'' then a @ b
      else a @ ''/'' @ b)"

definition rto_first :: "int \<Rightarrow> state \<Rightarrow> RegressionTestOutput option" where
  \<comment> \<open>RegressionTestOutput.query.filter(RegressionTestOutput.id == i).first()\<close>
  "rto_first i s = find (\<lambda>out. o_id out = i) (regression_test_outputs s)"

definition equality_type_request :: "int \<Rightarrow> Test \<Rightarrow> request \<Rightarrow> state \<Rightarrow> unit result \<times> state" where
  "equality_type_request test_id test request s =
     (case rq_test_id request of
        None \<Rightarrow> (Raised BadRequestKeyError, s)
      | Some rt \<Rightarrow>
          (case rq_test_file_id request of
             None \<Rightarrow> (Raised BadRequestKeyError, s)
           | Some test_file_id \<Rightarrow>
               (case rto_first test_file_id s of
                  None \<Rightarrow> (Returned (), s)
                | Some rto \<Rightarrow>
                    (Returned (),
                     s\<lparr>test_result_files := test_result_files s @
                         [\<lparr>f_test_id = t_id test, f_regression_test_id = rt,
                           f_regression_test_output_id = o_id rto, f_expected = o_correct rto,
                           f_got = None\<rparr>]\<rparr>))))"

definition upload_log_type_request ::
  "env \<Rightarrow> int \<Rightarrow> string \<Rightarrow> Test \<Rightarrow> request \<Rightarrow> state \<Rightarrow> bool result \<times> state" where
  "upload_log_type_request env test_id repo_folder test request s =
     (case rq_file request of
        None \<Rightarrow> (Returned False, s)
      | Some (uploaded_name, content) \<Rightarrow>
          (let filename = secure_filename env uploaded_name
           in if filename = [] then (Returned False, s)
              else
                (let temp_path = path_join (path_join repo_folder ''TempFiles'') filename;
                     final_path = path_join (path_join repo_folder ''LogFiles'')
                                    (str_int (t_id test) @ ''.txt'')
                 in (Returned True,
                     s\<lparr>files := ((files s)(temp_path \<mapsto> content))(temp_path := None, final_path \<mapsto> content)\<rparr>))))"

definition upload_type_request ::
  "env \<Rightarrow> int \<Rightarrow> string \<Rightarrow> Test \<Rightarrow> request \<Rightarrow> state \<Rightarrow> bool result \<times> state" where
  "upload_type_request env test_id repo_folder test request s =
     (case rq_test_id request of
        None \<Rightarrow> (Raised BadRequestKeyError, s)
      | Some rt \<Rightarrow>
          (case rq_test_file_id request of
             None \<Rightarrow> (Raised BadRequestKeyError, s)
           | Some test_file_id \<Rightarrow>
               (case rq_file request of
                  None \<Rightarrow> (Returned False, s)
                | Some (uploaded_name, content) \<Rightarrow>
                    (let filename = secure_filename env uploaded_name
                     in if filename = [] then (Returned False, s)
                        else
                          (let temp_path = path_join (path_join repo_folder ''TempFiles'') filename;
                               file_hash = sha256 env content;
                               file_extension = snd (splitext env filename);
                               final_path = path_join (path_join repo_folder ''TestResults'')
                                              (file_hash @ file_extension);
                               s1 = s\<lparr>files := ((files s)(temp_path \<mapsto> content))
                                                  (temp_path := None, final_path \<mapsto> content)\<rparr>
                           in case rto_first test_file_id s1 of
                                None \<Rightarrow> (Raised AttributeError, s1)
                              | Some rto \<Rightarrow>
                                  (Returned True,
                                   s1\<lparr>test_result_files := test_result_files s1 @
                                        [\<lparr>f_test_id = t_id test, f_regression_test_id = rt,
                                          f_regression_test_output_id = o_id rto,
                                          f_expected = o_correct rto, f_got = Some file_hash\<rparr>]\<rparr>))))))"

text \<open>
  Modelled from the spec: the uniqueness constraint of TestResult is declared in
  mod_test.models, which is not part of the sources. By section 3 of the spec there is at
  most one Result per pair of Test and regression test; the commit of a second one raises
  IntegrityError, which \<open>finish_type_request\<close> catches and logs.
\<close>

definition duplicate_result :: "TestResult \<Rightarrow> state \<Rightarrow> bool" where
  "duplicate_result r s =
     list_ex (\<lambda>x. r_test_id x = r_test_id r \<and> r_regression_test_id x = r_regression_test_id r)
       (test_results s)"

definition finish_type_request :: "int \<Rightarrow> Test \<Rightarrow> request \<Rightarrow> state \<Rightarrow> unit result \<times> state" where
  "finish_type_request test_id test request s =
     (case rq_test_id request of
        None \<Rightarrow> (Raised BadRequestKeyError, s)
      | Some rt \<Rightarrow>
          (case find (\<lambda>t. rt_id t = rt) (regression_tests s) of
             None \<Rightarrow> (Raised AttributeError, s)
           | Some regression_test \<Rightarrow>
               (case rq_runTime request of
                  None \<Rightarrow> (Raised BadRequestKeyError, s)
                | Some run_time \<Rightarrow>
                    (case rq_exitCode request of
                       None \<Rightarrow> (Raised BadRequestKeyError, s)
                     | Some exit_code \<Rightarrow>
                         (let result_row =
                                \<lparr>r_test_id = t_id test, r_regression_test_id = rt_id regression_test,
                                 r_runtime = run_time, r_exit_code = exit_code,
                                 r_expected_rc = rt_expected_rc regression_test\<rparr>
                          in if duplicate_result result_row s then (Returned (), s)
                             else (Returned (), s\<lparr>test_results := test_results s @ [result_row]\<rparr>))))))"

subsection \<open>progress_reporter\<close>

definition progress_reporter ::
  "env \<Rightarrow> int \<Rightarrow> string \<Rightarrow> request \<Rightarrow> state \<Rightarrow> string result \<times> state" where
  "progress_reporter env test_id token request s =
     (case find (\<lambda>t. t_id t = test_id) (tests s) of
        None \<Rightarrow> (Returned ''FAIL'', s)
      | Some test \<Rightarrow>
          if t_token test \<noteq> token then (Returned ''FAIL'', s)
          else
            (let repo_folder = sample_repository env
             in case rq_type request of
                  None \<Rightarrow> (Returned ''FAIL'', s)
                | Some ty \<Rightarrow>
                    if ty = ''progress'' then
                      and_then (progress_type_request env test test_id request s)
                        (\<lambda>ok s1. if \<not> ok then (Returned ''FAIL'', s1) else (Returned ''OK'', s1))
                    else if ty = ''equality'' then
                      and_then (equality_type_request test_id test request s)
                        (\<lambda>_ s1. (Returned ''OK'', s1))
                    else if ty = ''logupload'' then
                      and_then (upload_log_type_request env test_id repo_folder test request s)
                        (\<lambda>ok s1. if \<not> ok then (Returned ''EMPTY'', s1) else (Returned ''OK'', s1))
                    else if ty = ''upload'' then
                      and_then (upload_type_request env test_id repo_folder test request s)
                        (\<lambda>ok s1. if \<not> ok then (Returned ''EMPTY'', s1) else (Returned ''OK'', s1))
                    else if ty = ''finish'' then
                      and_then (finish_type_request test_id test request s)
                        (\<lambda>_ s1. (Returned ''OK'', s1))
                    else (Returned ''FAIL'', s)))"

subsection \<open>kvm_processor: the running machine\<close>

definition kvm_first :: "string \<Rightarrow> state \<Rightarrow> Kvm option" where
  \<comment> \<open>Kvm.query.filter(Kvm.name == kvm_name).first()\<close>
  "kvm_first kvm_name s = find (\<lambda>k. k_name k = kvm_name) (kvm s)"

text \<open>
  Lines 153 to 175. The result False is a \<open>return\<close>: the pass ends. \<open>status.test.id\<close> is
  the test id the Kvm row refers to.
\<close>

definition check_running :: "env \<Rightarrow> string \<Rightarrow> state \<Rightarrow> bool \<times> state" where
  "check_running env kvm_name s =
     (if vm_shutoff env then (True, s)
      else case kvm_first kvm_name s of
        Some status \<Rightarrow>
          if now env - k_timestamp status \<ge> of_int (kvm_max_runtime env) * 60 then
            (let test_progress_row =
                   \<lparr>p_test_id = k_test_id status, p_status = canceled,
                    p_message = ''Runtime exceeded'', p_timestamp = default_timestamp env\<rparr>;
                 s1 = s\<lparr>progress := progress s @ [test_progress_row],
                        kvm := remove1 status (kvm s),
                        vm_calls := vm_calls s @ [Destroy]\<rparr>
             in if \<not> destroy_ok env then (False, s1) else (True, s1))
          else (False, s)
      | None \<Rightarrow>
          (let s1 = s\<lparr>vm_calls := vm_calls s @ [Destroy]\<rparr>
           in if \<not> destroy_ok env then (False, s1) else (True, s1)))"

text \<open>Lines 177 to 182: a Kvm row left for a machine that is off.\<close>

definition drop_stale :: "string \<Rightarrow> state \<Rightarrow> state" where
  "drop_stale kvm_name s =
     (case kvm_first kvm_name s of
        None \<Rightarrow> s
      | Some status \<Rightarrow> s\<lparr>kvm := remove1 status (kvm s)\<rparr>)"

subsection \<open>kvm_processor: the oldest test\<close>

definition finished_tests :: "state \<Rightarrow> int list" where
  "finished_tests s = map p_test_id (filter (\<lambda>p. p_status p \<in> {canceled, completed}) (progress s))"

definition first_by_id :: "Test list \<Rightarrow> Test option" where
  \<comment> \<open>\<open>order_by(Test.id.asc()).first()\<close>\<close>
  "first_by_id ts = (case sort_key t_id ts of [] \<Rightarrow> None | t # _ \<Rightarrow> Some t)"

definition main_fork :: "env \<Rightarrow> state \<Rightarrow> Fork option" where
  \<comment> \<open>Fork.query.filter(Fork.github.like(fork_location)).first()\<close>
  "main_fork env s =
     (let fork_location = ''%/'' @ repository_owner env @ ''/'' @ repository env @ ''.git''
      in find (\<lambda>f. like env fork_location (fk_github f)) (forks s))"

text \<open>Lines 184 to 196. \<open>fork.id\<close> raises AttributeError when no fork row matches.\<close>

definition select_test :: "env \<Rightarrow> TestPlatform \<Rightarrow> state \<Rightarrow> error + Test option" where
  "select_test env platform s =
     (let finished = finished_tests s
      in case main_fork env s of
           None \<Rightarrow> Inl AttributeError
         | Some fork \<Rightarrow>
             (case first_by_id
                     (filter (\<lambda>t. t_id t \<notin> set finished \<and> t_platform t = platform
                                  \<and> t_fork_id t = fk_id fork) (tests s)) of
                Some test \<Rightarrow> Inr (Some test)
              | None \<Rightarrow>
                  Inr (first_by_id
                         (filter (\<lambda>t. t_id t \<notin> set finished \<and> t_platform t = platform) (tests s)))))"

subsection \<open>kvm_processor: the test files\<close>

definition str_bool_lower :: "bool \<Rightarrow> string" where
  \<comment> \<open>\<open>str(b).lower()\<close>\<close>
  "str_bool_lower b = (if b then ''true'' else ''false'')"

definition last_files :: "state \<Rightarrow> Test \<Rightarrow> RegressionTest \<Rightarrow> TestResultFile list" where
  "last_files s last_commit regression_test =
     filter (\<lambda>f. f_test_id f = t_id last_commit \<and> f_regression_test_id f = rt_id regression_test)
       (test_result_files s)"

definition last_commit_files ::
  "state \<Rightarrow> Test \<Rightarrow> RegressionTest \<Rightarrow> RegressionTestOutput \<Rightarrow> string option" where
  \<comment> \<open>the first \<open>got\<close> that is not NULL among the rows of the output file\<close>
  "last_commit_files s last_commit regression_test output_file =
     (case List.map_filter
             (\<lambda>f. if f_regression_test_output_id f = o_id output_file then f_got f else None)
             (last_files s last_commit regression_test) of
        [] \<Rightarrow> None
      | got # _ \<Rightarrow> Some got)"

definition file_node ::
  "env \<Rightarrow> state \<Rightarrow> Test \<Rightarrow> RegressionTest \<Rightarrow> RegressionTestOutput \<Rightarrow> xml" where
  "file_node env s last_commit regression_test output_file =
     Element ''file''
       [(''ignore'', str_bool_lower (o_ignore output_file)), (''id'', str_int (o_id output_file))] ''''
       [Element ''correct'' []
          (case last_commit_files s last_commit regression_test output_file of
             None \<Rightarrow> filename_correct env output_file
           | Some got \<Rightarrow> create_correct_filename env output_file got) [],
        Element ''expected'' []
          (filename_expected env output_file (rt_sample_sha regression_test)) []]"

definition entry_node :: "env \<Rightarrow> state \<Rightarrow> Test \<Rightarrow> RegressionTest \<Rightarrow> xml" where
  "entry_node env s last_commit regression_test =
     Element ''entry'' [(''id'', str_int (rt_id regression_test))] ''''
       [Element ''command'' [] (rt_command regression_test) [],
        Element ''input'' [(''type'', rt_input_type regression_test)]
          (rt_sample_filename regression_test) [],
        Element ''output'' [] (rt_output_type regression_test) [],
        Element ''compare'' [] ''''
          (map (file_node env s last_commit regression_test) (rt_output_files regression_test))]"

definition single_test :: "env \<Rightarrow> state \<Rightarrow> Test \<Rightarrow> int list \<Rightarrow> Category \<Rightarrow> xml" where
  "single_test env s last_commit regression_ids category =
     Element ''tests'' [] ''''
       (map (entry_node env s last_commit)
          (filter (\<lambda>t. rt_id t \<in> set regression_ids) (c_regression_tests category)))"

definition written_categories :: "int list \<Rightarrow> state \<Rightarrow> Category list" where
  \<comment> \<open>the categories, highest id first, that have a test in scope\<close>
  "written_categories regression_ids s =
     filter (\<lambda>c. length (c_regression_tests c) \<noteq> 0
                 \<and> list_ex (\<lambda>t. rt_id t \<in> set regression_ids) (c_regression_tests c))
       (rev (sort_key c_id (categories s)))"

definition multi_test :: "Category list \<Rightarrow> xml" where
  "multi_test written =
     Element ''multitest'' [] ''''
       (map (\<lambda>c. Element ''testfile'' [] '''' [Element ''location'' [] (c_name c @ ''.xml'') []])
          written)"

definition save_xml_to_file :: "xml \<Rightarrow> string \<Rightarrow> string \<Rightarrow> state \<Rightarrow> state" where
  "save_xml_to_file xml_node folder_name file_name s =
     s\<lparr>xml_files := xml_files s @ [(path_join folder_name file_name, xml_node)]\<rparr>"

text \<open>Lines 231 to 296.\<close>

definition generate_test_files ::
  "env \<Rightarrow> string \<Rightarrow> TestPlatform \<Rightarrow> Test \<Rightarrow> state \<Rightarrow> unit result \<times> state" where
  "generate_test_files env kvm_name platform test s =
     (let base_folder =
            path_join (path_join (path_join (sample_repository env) ''vm_data'') kvm_name) ''ci-tests''
      in case gd_first (''fetch_commit_'' @ platform_value platform) s of
           None \<Rightarrow> (Raised AttributeError, s)
         | Some commit_row \<Rightarrow>
             (case find (\<lambda>t. Txt (t_commit t) = gd_value commit_row \<and> t_platform t = platform)
                     (tests s) of
                None \<Rightarrow> (Raised AttributeError, s)
              | Some last_commit \<Rightarrow>
                  (let regression_ids = get_customized_regressiontests env test;
                       written = written_categories regression_ids s;
                       s1 = fold (\<lambda>c. save_xml_to_file
                                         (single_test env s last_commit regression_ids c)
                                         base_folder (c_name c @ ''.xml''))
                              written s
                   in (Returned (),
                       save_xml_to_file (multi_test written) base_folder ''TestAll.xml'' s1))))"

subsection \<open>kvm_processor: the launch\<close>

text \<open>
  Modelled from the spec: the uniqueness constraint of Kvm is declared in mod_ci.models,
  which is not part of the sources. By section 3 of the spec there is at most one lease per
  machine name; the commit of a second one raises IntegrityError, which \<open>kvm_processor\<close>
  catches and logs.
\<close>

definition duplicate_lease :: "Kvm \<Rightarrow> state \<Rightarrow> bool" where
  "duplicate_lease k s = list_ex (\<lambda>x. k_name x = k_name k) (kvm s)"

text \<open>
  Lines 208 to 409. The work on the git clone (lines 298 to 397) is the answer \<open>sync\<close> of the
  environment: the tree is ready, a step failed and the pass returns, or the pull request
  is not mergeable. A commit test has no merge; for it every answer but \<open>Synced\<close> is a
  failed step.
\<close>

definition launch :: "env \<Rightarrow> string \<Rightarrow> TestPlatform \<Rightarrow> Test \<Rightarrow> state \<Rightarrow> unit result \<times> state" where
  "launch env kvm_name platform test s =
     (if \<not> has_current_snapshot env then (Returned (), s)
      else
        (let s1 = s\<lparr>vm_calls := vm_calls s @ [RevertToSnapshot]\<rparr>
         in if \<not> revert_ok env then (Returned (), s1)
            else
              (let status = \<lparr>k_name = kvm_name, k_test_id = t_id test, k_timestamp = now env,
                             k_timestamp_prep_finished = None, k_timestamp_build_finished = None\<rparr>;
                   file_path = path_join (path_join (path_join (sample_repository env) ''vm_data'')
                                 kvm_name) ''reportURL'';
                   s2 = s1\<lparr>files := (files s1)(file_path \<mapsto> report_url env test)\<rparr>
               in and_then (generate_test_files env kvm_name platform test s2)
                    (\<lambda>_ s3.
                       case sync env test of
                         Synced \<Rightarrow>
                           (let s4 = s3\<lparr>vm_calls := vm_calls s3 @ [Create]\<rparr>
                            in if \<not> create_ok env then (Returned (), s4)
                               else if duplicate_lease status s4 then (Returned (), s4)
                               else (Returned (), s4\<lparr>kvm := kvm s4 @ [status]\<rparr>))
                       | SyncFailed \<Rightarrow> (Returned (), s3)
                       | NotMergeable \<Rightarrow>
                           if t_test_type test \<noteq> pull_request then (Returned (), s3)
                           else
                             (let progress_row =
                                    \<lparr>p_test_id = t_id test, p_status = canceled,
                                     p_message = ''Commit could not be merged'',
                                     p_timestamp = naive (now env)\<rparr>;
                                  s4 = s3\<lparr>progress := progress s3 @ [progress_row]\<rparr>;
                                  post = \<lparr>gs_commit = t_commit test, gs_state = FAILURE,
                                          gs_description = ''Tests canceled due to merge conflict'',
                                          gs_context = ''CI - '' @ platform_value (t_platform test),
                                          gs_target = t_id test\<rparr>
                              in (Returned (),
                                  case post_status env post s4 of None \<Rightarrow> s4 | Some s5 \<Rightarrow> s5))))))"

text \<open>
  Lines 184 to 409: from the choice of the test on. A pull request test without a pull
  request number is deleted.
\<close>

definition schedule :: "env \<Rightarrow> string \<Rightarrow> TestPlatform \<Rightarrow> state \<Rightarrow> unit result \<times> state" where
  "schedule env kvm_name platform s =
     (case select_test env platform s of
        Inl e \<Rightarrow> (Raised e, s)
      | Inr None \<Rightarrow> (Returned (), s)
      | Inr (Some test) \<Rightarrow>
          if t_test_type test = pull_request \<and> t_pr_nr test = 0
          then (Returned (), s\<lparr>tests := remove1 test (tests s)\<rparr>)
          else launch env kvm_name platform test s)"

text \<open>
  The whole pass. The parameters \<open>app\<close>, \<open>db\<close> and \<open>repository\<close> are the state and the
  environment; the \<open>delay\<close> only postpones the pass.
\<close>

definition kvm_processor :: "env \<Rightarrow> string \<Rightarrow> TestPlatform \<Rightarrow> state \<Rightarrow> unit result \<times> state" where
  "kvm_processor env kvm_name platform s =
     (if kvm_name = [] then (Returned (), s)
      else if (case find (\<lambda>m. m_platform m = platform) (maintenance_modes s) of
                 Some maintenance_mode \<Rightarrow> m_disabled maintenance_mode
               | None \<Rightarrow> False)
      then (Returned (), s)
      else if \<not> conn_ok env then (Returned (), s)
      else if \<not> vm_found env then (Returned (), s)
      else (case check_running env kvm_name s of
              (False, s1) \<Rightarrow> (Returned (), s1)
            | (True, s1) \<Rightarrow> schedule env kvm_name platform (drop_stale kvm_name s1)))"

subsection \<open>start_ci: a pull request is closed\<close>

text \<open>
  Lines 628 to 643, the event \<open>pull_request\<close> with the action \<open>closed\<close>. The status is
  posted outside any \<open>try\<close>: an ApiError ends the request.
\<close>

fun cancel_tests :: "env \<Rightarrow> Test list \<Rightarrow> state \<Rightarrow> unit result \<times> state" where
  "cancel_tests env [] s = (Returned (), s)"
| "cancel_tests env (test # rest) s =
     (if length (test_progress s test) > 0 then cancel_tests env rest s
      else
        (let progress_row = \<lparr>p_test_id = t_id test, p_status = canceled,
                             p_message = ''PR closed'', p_timestamp = naive (now env)\<rparr>;
             s1 = s\<lparr>progress := progress s @ [progress_row]\<rparr>;
             post = \<lparr>gs_commit = t_commit test, gs_state = FAILURE,
                     gs_description = ''Tests canceled'',
                     gs_context = ''CI - '' @ platform_value (t_platform test),
                     gs_target = t_id test\<rparr>
         in case post_status env post s1 of
              None \<Rightarrow> (Raised ApiError, s1)
            | Some s2 \<Rightarrow> cancel_tests env rest s2))"

definition pull_request_closed :: "env \<Rightarrow> int \<Rightarrow> state \<Rightarrow> unit result \<times> state" where
  "pull_request_closed env pr_nr s =
     cancel_tests env (filter (\<lambda>t. t_pr_nr t = pr_nr) (tests s)) s"

subsection \<open>Notions of the specification\<close>

text \<open>
  What the properties speak of and the code does not name.
\<close>

text \<open>Feeding samples one after the other, as successive reports do.\<close>

fun feed_samples :: "TestPlatform \<Rightarrow> string \<Rightarrow> rat list \<Rightarrow> state \<Rightarrow> state" where
  "feed_samples platform process_type [] s = s"
| "feed_samples platform process_type (x # xs) s =
     feed_samples platform process_type xs (snd (set_avg_time platform process_type x s))"

definition stored_average :: "TestPlatform \<Rightarrow> string \<Rightarrow> state \<Rightarrow> gval option" where
  "stored_average platform process_type s =
     map_option gd_value
       (gd_first (''avg_'' @ process_type @ ''_time_'' @ platform_value platform) s)"

text \<open>
  A sequence of progress reports for one test, each with the clock reading and the
  timestamp of its arrival. A report that raises leaves the state it reached.
\<close>

fun submit_all :: "env \<Rightarrow> Test \<Rightarrow> (rat \<times> datetime \<times> request) list \<Rightarrow> state \<Rightarrow> state" where
  "submit_all env test [] s = s"
| "submit_all env test ((clock, stamp, request) # reports) s =
     submit_all env test reports
       (snd (progress_type_request (env\<lparr>now := clock, default_timestamp := stamp\<rparr>)
               test (t_id test) request s))"

text \<open>
  The order of a progress log: no event follows a completed or canceled one, and each
  event has at least the rank of the one before it unless it is a canceled
  ``Duplicate Entries'' event.
\<close>

definition coerced :: "TestProgress \<Rightarrow> bool" where
  "coerced p = (p_status p = canceled \<and> p_message p = ''Duplicate Entries'')"

fun ordered_log :: "env \<Rightarrow> TestProgress list \<Rightarrow> bool" where
  "ordered_log env [] = True"
| "ordered_log env [p] = True"
| "ordered_log env (p # q # ps) =
     (p_status p \<notin> {completed, canceled}
      \<and> (rank env (p_status p) \<le> rank env (p_status q) \<or> coerced q)
      \<and> ordered_log env (q # ps))"

text \<open>
  The tests of a platform that no completed or canceled progress record mentions.
\<close>

definition unfinished_tests :: "TestPlatform \<Rightarrow> state \<Rightarrow> Test list" where
  "unfinished_tests platform s =
     filter (\<lambda>t. t_platform t = platform
                 \<and> \<not> list_ex (\<lambda>p. p_test_id p = t_id t \<and> p_status p \<in> {completed, canceled})
                       (progress s))
       (tests s)"

text \<open>
  Reading a test file back: for each \<open>file\<close> of the \<open>compare\<close> of each \<open>entry\<close>, the id of the
  entry, the id of the file and the text of its \<open>correct\<close> element.
\<close>

fun xml_tag :: "xml \<Rightarrow> string" where
  "xml_tag (Element tag attrs body children) = tag"

fun xml_attrs :: "xml \<Rightarrow> (string \<times> string) list" where
  "xml_attrs (Element tag attrs body children) = attrs"

fun xml_text :: "xml \<Rightarrow> string" where
  "xml_text (Element tag attrs body children) = body"

fun xml_children :: "xml \<Rightarrow> xml list" where
  "xml_children (Element tag attrs body children) = children"

definition children_named :: "string \<Rightarrow> xml \<Rightarrow> xml list" where
  "children_named tag node = filter (\<lambda>c. xml_tag c = tag) (xml_children node)"

definition correct_references :: "xml \<Rightarrow> (string option \<times> string option \<times> string) list" where
  "correct_references doc =
     concat (map (\<lambda>entry.
       concat (map (\<lambda>compare.
         concat (map (\<lambda>file.
           map (\<lambda>c. (map_of (xml_attrs entry) ''id'', map_of (xml_attrs file) ''id'', xml_text c))
             (children_named ''correct'' file))
           (children_named ''file'' compare)))
         (children_named ''compare'' entry)))
       (children_named ''entry'' doc))"

text \<open>
  The values \<open>got\<close> that the run of a test left for an output file of a regression test:
  the files that did not match.
\<close>

definition mismatches_of :: "state \<Rightarrow> Test \<Rightarrow> RegressionTest \<Rightarrow> RegressionTestOutput \<Rightarrow> string list" where
  "mismatches_of s run regression_test output_file =
     List.map_filter f_got
       (filter (\<lambda>f. f_test_id f = t_id run \<and> f_regression_test_id f = rt_id regression_test
                    \<and> f_regression_test_output_id f = o_id output_file)
          (test_result_files s))"

subsection \<open>Example data\<close>

definition empty_state :: state where
  "empty_state =
     \<lparr>tests = [], progress = [], kvm = [], general_data = [], test_results = [],
      test_result_files = [], regression_tests = [], regression_test_outputs = [],
      categories = [], forks = [], maintenance_modes = [], statuses_posted = [],
      pr_comments = [], badges = [], platforms_started = [], vm_calls = [],
      files = Map.empty, xml_files = []\<rparr>"

text \<open>
  A LIKE that does not tell upper from lower case, as the default collations do: \<open>%\<close>
  matches any text, \<open>_\<close> any character.
\<close>

fun like_cs :: "string \<Rightarrow> string \<Rightarrow> bool" where
  "like_cs [] x = (x = [])"
| "like_cs (p # ps) [] = (p = CHR ''%'' \<and> like_cs ps [])"
| "like_cs (p # ps) (c # cs) =
     (if p = CHR ''%'' then like_cs ps (c # cs) \<or> like_cs (p # ps) cs
      else (p = CHR ''_'' \<or> p = c) \<and> like_cs ps cs)"

definition like_ci :: "string \<Rightarrow> string \<Rightarrow> bool" where
  "like_ci pattern x = like_cs (map lower pattern) (map lower x)"

definition example_env :: env where
  "example_env =
     \<lparr>rank_canceled = 4, now = 100, default_timestamp = \<lparr>wall = 100, tzinfo = Some 0\<rparr>,
      repository_owner = ''CCExtractor'', repository = ''ccextractor'',
      sample_repository = ''/repository'', kvm_max_runtime = 120,
      conn_ok = True, vm_found = True, vm_shutoff = False, destroy_ok = True,
      has_current_snapshot = True, revert_ok = True, create_ok = True,
      sync = (\<lambda>t. Synced), like = like_ci, post_fails = (\<lambda>p. False), copyfile_fails = False,
      report_url = (\<lambda>t. ''https://ci/progress-reporter/'' @ str_int (t_id t) @ ''/'' @ t_token t),
      get_customized_regressiontests = (\<lambda>t. [1, 2]),
      filename_correct = (\<lambda>out. o_correct out @ ''.txt''),
      create_correct_filename = (\<lambda>out name. name @ ''.txt''),
      filename_expected = (\<lambda>out sha. sha @ ''.txt''),
      secure_filename = (\<lambda>n. n), sha256 = (\<lambda>c. ''hash''), splitext = (\<lambda>n. (n, ''''))\<rparr>"

definition example_test :: Test where
  "example_test =
     \<lparr>t_id = 7, t_platform = linux, t_test_type = pull_request, t_fork_id = 2,
      t_branch = ''pull_request'', t_commit = ''abc'', t_pr_nr = 12, t_token = ''secret''\<rparr>"

definition event :: "int \<Rightarrow> TestStatus \<Rightarrow> string \<Rightarrow> rat \<Rightarrow> TestProgress" where
  "event i st m w = \<lparr>p_test_id = i, p_status = st, p_message = m,
                     p_timestamp = \<lparr>wall = w, tzinfo = Some 0\<rparr>\<rparr>"

definition report :: "string \<Rightarrow> string \<Rightarrow> request" where
  "report st m =
     \<lparr>rq_type = Some ''progress'', rq_status = Some st, rq_message = Some m, rq_test_id = None,
      rq_test_file_id = None, rq_runTime = None, rq_exitCode = None, rq_file = None\<rparr>"

definition example_state :: state where
  "example_state =
     empty_state\<lparr>tests := [example_test],
                 forks := [\<lparr>fk_id = 1, fk_github = ''https://github.com/CCExtractor/ccextractor.git''\<rparr>,
                           \<lparr>fk_id = 2, fk_github = ''https://github.com/someone/fork.git''\<rparr>]\<rparr>"

definition started_state :: state where
  "started_state = example_state\<lparr>progress := [event 7 preparation ''start'' 15]\<rparr>"

definition leased_state :: state where
  "leased_state =
     started_state\<lparr>kvm := [\<lparr>k_name = ''linux-vm'', k_test_id = 7, k_timestamp = 12,
                              k_timestamp_prep_finished = None,
                              k_timestamp_build_finished = None\<rparr>]\<rparr>"

definition closed_state :: state where
  "closed_state =
     example_state\<lparr>progress := [event 7 preparation ''start'' 15, event 7 completed ''done'' 60]\<rparr>"

definition example_regression_test :: RegressionTest where
  "example_regression_test =
     \<lparr>rt_id = 1, rt_command = ''-out=srt'', rt_input_type = ''file'', rt_output_type = ''file'',
      rt_expected_rc = 0, rt_sample_filename = ''sample.ts'', rt_sample_sha = ''sha1'',
      rt_output_files = [\<lparr>o_id = 5, o_regression_id = 1, o_correct = ''good'', o_ignore = False\<rparr>]\<rparr>"

definition warm_state :: state where
  "warm_state =
     example_state\<lparr>
       progress := [\<lparr>p_test_id = 7, p_status = preparation, p_message = ''start'',
                     p_timestamp = \<lparr>wall = 15, tzinfo = Some 3600\<rparr>\<rparr>,
                    event 7 testing ''run'' 50],
       general_data := [\<lparr>gd_key = ''average_time_linux'', gd_value = Num 10\<rparr>],
       regression_tests := [example_regression_test],
       test_results := [\<lparr>r_test_id = 3, r_regression_test_id = 1, r_runtime = 4, r_exit_code = 0,
                           r_expected_rc = 0\<rparr>,
                         \<lparr>r_test_id = 7, r_regression_test_id = 1, r_runtime = 5, r_exit_code = 0,
                           r_expected_rc = 0\<rparr>]\<rparr>"

definition rounding_state :: state where
  "rounding_state =
     example_state\<lparr>
       progress := [event 7 preparation ''start'' 40, event 7 testing ''run'' 50],
       general_data := [\<lparr>gd_key = ''average_time_linux'', gd_value = Num 60\<rparr>],
       regression_tests := replicate 10 example_regression_test,
       test_results := replicate 21 \<lparr>r_test_id = 3, r_regression_test_id = 1, r_runtime = 4,
                                      r_exit_code = 0, r_expected_rc = 0\<rparr>\<rparr>"

definition tested_state :: state where
  "tested_state =
     example_state\<lparr>
       progress := [event 7 preparation ''start'' 15, event 7 testing ''run'' 50],
       regression_tests := [example_regression_test],
       test_results := [\<lparr>r_test_id = 7, r_regression_test_id = 1, r_runtime = 5, r_exit_code = 0,
                           r_expected_rc = 0\<rparr>],
       test_result_files := [\<lparr>f_test_id = 7, f_regression_test_id = 1,
                                f_regression_test_output_id = 5, f_expected = ''good'',
                                f_got = Some ''bad''\<rparr>]\<rparr>"

definition equality_report :: "int \<Rightarrow> int \<Rightarrow> request" where
  "equality_report rt out =
     \<lparr>rq_type = Some ''equality'', rq_status = None, rq_message = None, rq_test_id = Some rt,
      rq_test_file_id = Some out, rq_runTime = None, rq_exitCode = None, rq_file = None\<rparr>"

definition late_env :: env where
  "late_env = example_env\<lparr>now := 10000\<rparr>"

definition main_test :: "int \<Rightarrow> Test" where
  "main_test i =
     \<lparr>t_id = i, t_platform = linux, t_test_type = TestType.commit, t_fork_id = 1,
      t_branch = ''master'', t_commit = ''base'', t_pr_nr = 0, t_token = ''token''\<rparr>"

definition fork_test :: "int \<Rightarrow> Test" where
  "fork_test i =
     \<lparr>t_id = i, t_platform = linux, t_test_type = pull_request, t_fork_id = 2,
      t_branch = ''pull_request'', t_commit = ''abc'', t_pr_nr = 12, t_token = ''secret''\<rparr>"

definition queue_state :: state where
  "queue_state =
     example_state\<lparr>tests := [fork_test 7, main_test 5, fork_test 3, main_test 2],
                   progress := [event 2 preparation ''start'' 1, event 2 completed ''done'' 9,
                                event 3 preparation ''start'' 10]\<rparr>"

definition ready_state :: state where
  "ready_state =
     queue_state\<lparr>general_data := [\<lparr>gd_key = ''fetch_commit_linux'', gd_value = Txt ''base''\<rparr>]\<rparr>"

definition done_state :: state where
  "done_state =
     example_state\<lparr>tests := [main_test 2],
                   progress := [event 2 preparation ''start'' 1, event 2 completed ''done'' 9]\<rparr>"

definition baseline_state :: state where
  "baseline_state =
     example_state\<lparr>
       tests := [main_test 1, example_test],
       progress := [event 1 preparation ''start'' 1, event 1 completed ''done'' 9],
       general_data := [\<lparr>gd_key = ''fetch_commit_linux'', gd_value = Txt ''base''\<rparr>],
       regression_tests := [example_regression_test],
       regression_test_outputs := rt_output_files example_regression_test,
       categories := [\<lparr>c_id = 1, c_name = ''Broken'', c_regression_tests = [example_regression_test]\<rparr>],
       test_result_files := [\<lparr>f_test_id = 1, f_regression_test_id = 1,
                                f_regression_test_output_id = 5, f_expected = ''good'',
                                f_got = Some ''new''\<rparr>]\<rparr>"

definition idle_env :: env where
  "idle_env = example_env\<lparr>vm_shutoff := True\<rparr>"

definition closing_state :: state where
  "closing_state =
     example_state\<lparr>tests := [fork_test 7, fork_test 8, main_test 9],
                   progress := [event 7 preparation ''start'' 15]\<rparr>"

section \<open>Properties\<close>

subsection \<open>The phase-time accumulator\<close>

text \<open>
  C2. After the samples 1, 2, 3 the stored preparation average for linux is 5/3, not their
  mean 2: the second update stores 3/2, and the third truncates it to 1 with
  \<open>int(float(...))\<close> before it multiplies by the count.
\<close>

theorem set_avg_time_truncates_stored_average:
  "stored_average linux ''prep'' (feed_samples linux ''prep'' [1, 2, 3] empty_state)
     = Some (Num (5 / 3))
   \<and> sum_list [1, 2, 3 :: rat] / 3 = 2"
proof -
  have fl: "\<lfloor>3 / 2 :: rat\<rfloor> = 1"
    by (rule floor_unique) simp_all
  show ?thesis
    by (simp add: stored_average_def empty_state_def set_avg_time_def gd_first_def gd_assign_def
        int_of_def float_of_def py_int_def Let_def fl)
qed

subsection \<open>What the stages of progress_type_request leave unchanged\<close>

lemma and_then_alt:
  "and_then r f = (case fst r of Raised e \<Rightarrow> (Raised e, snd r) | Returned x \<Rightarrow> f x (snd r))"
  by (simp add: and_then_def split: prod.splits result.splits)

lemma set_avg_time_fields:
  "progress (snd (set_avg_time p t x s)) = progress s"
  "tests (snd (set_avg_time p t x s)) = tests s"
  "kvm (snd (set_avg_time p t x s)) = kvm s"
  "forks (snd (set_avg_time p t x s)) = forks s"
  "test_results (snd (set_avg_time p t x s)) = test_results s"
  "test_result_files (snd (set_avg_time p t x s)) = test_result_files s"
  "regression_tests (snd (set_avg_time p t x s)) = regression_tests s"
  "statuses_posted (snd (set_avg_time p t x s)) = statuses_posted s"
  by (simp_all add: set_avg_time_def gd_assign_def Let_def split: option.splits sum.splits)

lemma check_order_fields:
  "progress (snd (check_order env test tid st msg s)) = progress s"
  "tests (snd (check_order env test tid st msg s)) = tests s"
  "forks (snd (check_order env test tid st msg s)) = forks s"
  "test_results (snd (check_order env test tid st msg s)) = test_results s"
  "test_result_files (snd (check_order env test tid st msg s)) = test_result_files s"
  "regression_tests (snd (check_order env test tid st msg s)) = regression_tests s"
  "statuses_posted (snd (check_order env test tid st msg s)) = statuses_posted s"
  by (simp_all add: check_order_def Let_def and_then_alt kvm_assign_def set_avg_time_fields
      split: option.splits result.splits prod.splits)

lemma store_fetch_commit_fields:
  "progress (snd (store_fetch_commit env test st s)) = progress s"
  "tests (snd (store_fetch_commit env test st s)) = tests s"
  "kvm (snd (store_fetch_commit env test st s)) = kvm s"
  "forks (snd (store_fetch_commit env test st s)) = forks s"
  "test_results (snd (store_fetch_commit env test st s)) = test_results s"
  "test_result_files (snd (store_fetch_commit env test st s)) = test_result_files s"
  "regression_tests (snd (store_fetch_commit env test st s)) = regression_tests s"
  "statuses_posted (snd (store_fetch_commit env test st s)) = statuses_posted s"
  by (simp_all add: store_fetch_commit_def Let_def gd_assign_def split: option.splits)

lemma update_average_fields:
  "progress (snd (update_average test ca s)) = progress s"
  "tests (snd (update_average test ca s)) = tests s"
  "kvm (snd (update_average test ca s)) = kvm s"
  "forks (snd (update_average test ca s)) = forks s"
  "test_results (snd (update_average test ca s)) = test_results s"
  "test_result_files (snd (update_average test ca s)) = test_result_files s"
  "regression_tests (snd (update_average test ca s)) = regression_tests s"
  "statuses_posted (snd (update_average test ca s)) = statuses_posted s"
  by (simp_all add: update_average_def Let_def gd_assign_def
      split: option.splits sum.splits prod.splits float.splits)

lemma close_test_fields:
  "progress (snd (close_test test tid st s)) = progress s"
  "tests (snd (close_test test tid st s)) = tests s"
  "forks (snd (close_test test tid st s)) = forks s"
  "test_results (snd (close_test test tid st s)) = test_results s"
  "test_result_files (snd (close_test test tid st s)) = test_result_files s"
  "regression_tests (snd (close_test test tid st s)) = regression_tests s"
  "statuses_posted (snd (close_test test tid st s)) = statuses_posted s"
  by (simp_all add: close_test_def Let_def and_then_alt update_average_fields
      split: option.splits result.splits)

lemma update_build_badge_fields:
  "progress (snd (update_build_badge env st test s)) = progress s"
  "statuses_posted (snd (update_build_badge env st test s)) = statuses_posted s"
  by (simp_all add: update_build_badge_def split: option.splits)

lemma post_update_progress:
  "progress (snd (post_update env test st row s)) = progress s"
  by (simp add: post_update_def Let_def and_then_alt update_build_badge_fields comment_pr_def
      post_status_def start_platforms_def case_prod_beta
      split: option.splits result.splits)

subsection \<open>The order of the recorded events\<close>

lemma rank_clock [simp]:
  "rank (env\<lparr>now := c, default_timestamp := d\<rparr>) st = rank env st"
  by (cases st) simp_all

lemma ordered_log_snoc:
  "ordered_log env (xs @ [q]) =
     (ordered_log env xs \<and>
      (xs = [] \<or> (p_status (last xs) \<notin> {completed, canceled}
                  \<and> (rank env (p_status (last xs)) \<le> rank env (p_status q) \<or> coerced q))))"
  by (induction env xs rule: ordered_log.induct) auto

lemma check_order_result:
  assumes "fst (check_order env test tid st0 m0 s) = Returned (Some (st, m))"
  shows "(test_progress s test = [] \<and> st = st0 \<and> m = m0) \<or>
     (test_progress s test \<noteq> []
      \<and> p_status (last (test_progress s test)) \<notin> {completed, canceled}
      \<and> (if rank env st0 < rank env (p_status (last (test_progress s test)))
          then st = canceled \<and> m = ''Duplicate Entries'' else st = st0 \<and> m = m0))"
  using assms
  by (simp add: check_order_def Let_def and_then_alt progress_step_def
      split: if_splits option.splits result.splits)

lemma check_order_closed:
  "test_progress s test \<noteq> [] \<Longrightarrow> p_status (last (test_progress s test)) \<in> {completed, canceled}
   \<Longrightarrow> check_order env test tid st0 m0 s = (Returned None, s)"
  by (auto simp add: check_order_def Let_def progress_step_def)

lemma check_order_coerces:
  "test_progress s test \<noteq> [] \<Longrightarrow> p_status (last (test_progress s test)) \<notin> {completed, canceled}
   \<Longrightarrow> rank env st0 < rank env (p_status (last (test_progress s test)))
   \<Longrightarrow> check_order env test tid st0 m0 s = (Returned (Some (canceled, ''Duplicate Entries'')), s)"
  by (simp add: check_order_def Let_def progress_step_def)

lemma recorded_progress:
  "progress (snd (progress_type_request env test tid rq s)) =
     (case rq_status rq of
        None \<Rightarrow> progress s
      | Some text \<Rightarrow>
          (case from_string text of
             Inl e \<Rightarrow> progress s
           | Inr st0 \<Rightarrow>
               (case rq_message rq of
                  None \<Rightarrow> progress s
                | Some m0 \<Rightarrow>
                    (case fst (check_order env test tid st0 m0 s) of
                       Returned (Some (st, m)) \<Rightarrow>
                         progress s @ [\<lparr>p_test_id = t_id test, p_status = st, p_message = m,
                                        p_timestamp = default_timestamp env\<rparr>]
                     | _ \<Rightarrow> progress s))))"
  by (simp add: progress_type_request_def Let_def and_then_alt check_order_fields
      store_fetch_commit_fields close_test_fields post_update_progress
      split: option.splits sum.splits result.splits)

lemma recorded_progress_cases:
  "progress (snd (progress_type_request env test tid rq s)) = progress s \<or>
   (\<exists>st0 m0 st m. fst (check_order env test tid st0 m0 s) = Returned (Some (st, m))
      \<and> progress (snd (progress_type_request env test tid rq s)) =
          progress s @ [\<lparr>p_test_id = t_id test, p_status = st, p_message = m,
                         p_timestamp = default_timestamp env\<rparr>])"
  unfolding recorded_progress
  by (auto split: option.splits sum.splits result.splits)

lemma ordered_log_step:
  assumes "ordered_log env (test_progress s test)"
  shows "ordered_log env (test_progress (snd (progress_type_request env test tid rq s)) test)"
proof -
  let ?s' = "snd (progress_type_request env test tid rq s)"
  from recorded_progress_cases [of env test tid rq s]
  consider (same) "progress ?s' = progress s"
    | (app) st0 m0 st m where
        "fst (check_order env test tid st0 m0 s) = Returned (Some (st, m))"
        "progress ?s' = progress s @ [\<lparr>p_test_id = t_id test, p_status = st, p_message = m,
                                        p_timestamp = default_timestamp env\<rparr>]"
    by blast
  then show ?thesis
  proof cases
    case same
    then show ?thesis using assms by (simp add: test_progress_def)
  next
    case app
    have tp: "test_progress ?s' test = test_progress s test
                @ [\<lparr>p_test_id = t_id test, p_status = st, p_message = m,
                    p_timestamp = default_timestamp env\<rparr>]"
      using app(2) by (simp add: test_progress_def)
    from check_order_result [OF app(1)] assms show ?thesis
      unfolding tp ordered_log_snoc
      by (auto simp: coerced_def split: if_splits)
  qed
qed

lemma ordered_log_clock:
  "ordered_log (env\<lparr>now := c, default_timestamp := d\<rparr>) xs = ordered_log env xs"
  by (induction env xs rule: ordered_log.induct) simp_all

lemma ordered_log_submit_all:
  "ordered_log env (test_progress s test)
   \<Longrightarrow> ordered_log env (test_progress (submit_all env test reports s) test)"
proof (induction reports arbitrary: s)
  case Nil
  then show ?case by simp
next
  case (Cons r reports)
  obtain c d rq where r: "r = (c, d, rq)" by (cases r)
  let ?e = "env\<lparr>now := c, default_timestamp := d\<rparr>"
  have "ordered_log ?e (test_progress s test)"
    using Cons.prems by (simp add: ordered_log_clock)
  then have "ordered_log ?e (test_progress (snd (progress_type_request ?e test (t_id test) rq s)) test)"
    by (rule ordered_log_step)
  then have "ordered_log env (test_progress (snd (progress_type_request ?e test (t_id test) rq s)) test)"
    by (simp add: ordered_log_clock)
  then show ?case unfolding r by (simp add: Cons.IH)
qed

text \<open>
  C1. The progress reports of one test, processed one after the other by
  \<open>progress_type_request\<close>, keep the log of the test ordered: no event follows a completed
  or canceled one, and every event has at least the rank of the event before it unless it
  is a canceled ``Duplicate Entries'' event. A report whose rank is strictly below the last
  recorded rank of an open test is recorded as canceled with the message
  ``Duplicate Entries'', whatever the later statements of the call do. Once the last
  recorded status is completed or canceled a report changes nothing and is not answered
  with True; a report that carries a status and a message is answered with False, and the
  endpoint answers ``FAIL''.
\<close>

theorem progress_order_enforced:
  "(ordered_log env (test_progress s test)
      \<longrightarrow> ordered_log env (test_progress (submit_all env test reports s) test))
   \<and> (test_progress s test \<noteq> []
      \<and> p_status (last (test_progress s test)) \<notin> {completed, canceled}
      \<and> rq_status rq = Some name \<and> from_string name = Inr st0 \<and> rq_message rq = Some m0
      \<and> rank env st0 < rank env (p_status (last (test_progress s test)))
      \<longrightarrow> progress (snd (progress_type_request env test tid rq s)) =
            progress s @ [\<lparr>p_test_id = t_id test, p_status = canceled,
                           p_message = ''Duplicate Entries'',
                           p_timestamp = default_timestamp env\<rparr>])
   \<and> (test_progress s test \<noteq> []
      \<and> p_status (last (test_progress s test)) \<in> {completed, canceled}
      \<longrightarrow> snd (progress_type_request env test tid rq s) = s
          \<and> fst (progress_type_request env test tid rq s) \<noteq> Returned True)
   \<and> (test_progress s test \<noteq> []
      \<and> p_status (last (test_progress s test)) \<in> {completed, canceled}
      \<and> rq_status rq = Some name \<and> from_string name = Inr st0 \<and> rq_message rq = Some m0
      \<longrightarrow> progress_type_request env test tid rq s = (Returned False, s))
   \<and> (test_progress s test \<noteq> []
      \<and> p_status (last (test_progress s test)) \<in> {completed, canceled}
      \<and> rq_status rq = Some name \<and> from_string name = Inr st0 \<and> rq_message rq = Some m0
      \<and> find (\<lambda>t. t_id t = tid) (tests s) = Some test \<and> t_token test = token
      \<and> rq_type rq = Some ''progress''
      \<longrightarrow> progress_reporter env tid token rq s = (Returned ''FAIL'', s))"
proof (intro conjI impI)
  assume "ordered_log env (test_progress s test)"
  then show "ordered_log env (test_progress (submit_all env test reports s) test)"
    by (rule ordered_log_submit_all)
next
  assume h: "test_progress s test \<noteq> []
      \<and> p_status (last (test_progress s test)) \<notin> {completed, canceled}
      \<and> rq_status rq = Some name \<and> from_string name = Inr st0 \<and> rq_message rq = Some m0
      \<and> rank env st0 < rank env (p_status (last (test_progress s test)))"
  then have "check_order env test tid st0 m0 s = (Returned (Some (canceled, ''Duplicate Entries'')), s)"
    by (intro check_order_coerces) simp_all
  with h show "progress (snd (progress_type_request env test tid rq s)) =
            progress s @ [\<lparr>p_test_id = t_id test, p_status = canceled,
                           p_message = ''Duplicate Entries'',
                           p_timestamp = default_timestamp env\<rparr>]"
    by (simp add: recorded_progress)
next
  assume h: "test_progress s test \<noteq> []
      \<and> p_status (last (test_progress s test)) \<in> {completed, canceled}"
  then have c: "\<And>st0 m0. check_order env test tid st0 m0 s = (Returned None, s)"
    by (intro check_order_closed) simp_all
  show "snd (progress_type_request env test tid rq s) = s"
    by (simp add: progress_type_request_def c and_then_def split: option.splits sum.splits)
  show "fst (progress_type_request env test tid rq s) \<noteq> Returned True"
    by (simp add: progress_type_request_def c and_then_def split: option.splits sum.splits)
next
  assume h: "test_progress s test \<noteq> []
      \<and> p_status (last (test_progress s test)) \<in> {completed, canceled}
      \<and> rq_status rq = Some name \<and> from_string name = Inr st0 \<and> rq_message rq = Some m0"
  then have c: "check_order env test tid st0 m0 s = (Returned None, s)"
    by (intro check_order_closed) simp_all
  with h show "progress_type_request env test tid rq s = (Returned False, s)"
    by (simp add: progress_type_request_def and_then_def)
next
  assume h: "test_progress s test \<noteq> []
      \<and> p_status (last (test_progress s test)) \<in> {completed, canceled}
      \<and> rq_status rq = Some name \<and> from_string name = Inr st0 \<and> rq_message rq = Some m0
      \<and> find (\<lambda>t. t_id t = tid) (tests s) = Some test \<and> t_token test = token
      \<and> rq_type rq = Some ''progress''"
  then have c: "check_order env test tid st0 m0 s = (Returned None, s)"
    by (intro check_order_closed) simp_all
  with h have "progress_type_request env test tid rq s = (Returned False, s)"
    by (simp add: progress_type_request_def and_then_def)
  with h show "progress_reporter env tid token rq s = (Returned ''FAIL'', s)"
    by (simp add: progress_reporter_def and_then_def)
qed

subsection \<open>A report that is answered with True\<close>

lemma returned_True_stages:
  assumes "fst (progress_type_request env test tid rq s) = Returned True"
  shows "\<exists>name st0 m0 st m. rq_status rq = Some name \<and> from_string name = Inr st0
     \<and> rq_message rq = Some m0
     \<and> fst (check_order env test tid st0 m0 s) = Returned (Some (st, m))
     \<and> (let row = \<lparr>p_test_id = t_id test, p_status = st, p_message = m,
                     p_timestamp = default_timestamp env\<rparr>;
             s1 = snd (check_order env test tid st0 m0 s);
             s2 = s1\<lparr>progress := progress s1 @ [row]\<rparr>;
             s3 = snd (store_fetch_commit env test st s2);
             s4 = snd (close_test test tid st s3)
         in fst (store_fetch_commit env test st s2) = Returned ()
            \<and> fst (close_test test tid st s3) = Returned ()
            \<and> fst (post_update env test st row s4) = Returned True
            \<and> snd (progress_type_request env test tid rq s) = snd (post_update env test st row s4))"
  using assms
  by (auto simp: progress_type_request_def and_then_alt Let_def
      split: option.splits sum.splits result.splits)

lemma check_order_needs_lease:
  assumes "fst (check_order env test tid st0 m0 s) = Returned r"
    and "test_progress s test \<noteq> []"
    and "p_status (last (test_progress s test)) \<notin> {completed, canceled}"
    and "rank env (p_status (last (test_progress s test))) < rank env st0"
    and "st0 \<in> {building, testing}"
  shows "kvm_by_test tid s \<noteq> None"
  using assms
  by (auto simp: check_order_def Let_def progress_step_def and_then_alt
      split: if_splits option.splits result.splits)

lemma check_order_without_lease:
  assumes "kvm_by_test tid s = None"
    and "test_progress s test \<noteq> []"
    and "p_status (last (test_progress s test)) \<notin> {completed, canceled}"
    and "rank env (p_status (last (test_progress s test))) < rank env st0"
    and "st0 \<in> {building, testing}"
  shows "check_order env test tid st0 m0 s = (Raised AttributeError, s)"
  using assms
  by (auto simp: check_order_def Let_def progress_step_def and_then_alt
      split: if_splits option.splits result.splits)



lemma counts_unchanged:
  assumes "test_results s' = test_results s" "test_result_files s' = test_result_files s"
    "regression_tests s' = regression_tests s"
  shows "outcome test s' = outcome test s"
  using assms by (simp add: outcome_def crashes_def results_def results_zero_rc_def)

lemma post_update_completed:
  assumes "fst (post_update env test completed row s) = Returned b"
  shows "statuses_posted (snd (post_update env test completed row s)) =
     statuses_posted s @
       (let post = \<lparr>gs_commit = t_commit test, gs_state = fst (outcome test s),
                    gs_description = snd (outcome test s),
                    gs_context = ''CI - '' @ platform_value (t_platform test),
                    gs_target = t_id test\<rparr>
        in if post_fails env post then [] else [post])"
proof -
  obtain a d where o: "outcome test s = (a, d)"
    by (cases "outcome test s")
  define s1 where "s1 = (if t_test_type test = pull_request
                     then comment_pr (t_id test) a (t_pr_nr test) (t_platform test) s else s)"
  have s1: "statuses_posted s1 = statuses_posted s"
    by (simp add: s1_def comment_pr_def)
  have r: "fst (update_build_badge env a test s1) = Returned ()"
    using assms
    by (auto simp: post_update_def o and_then_alt s1_def Let_def split: result.splits if_splits)
  show ?thesis
    using r [unfolded s1_def]
    by (auto simp: post_update_def o and_then_alt Let_def update_build_badge_fields
        post_status_def start_platforms_def comment_pr_def split: if_splits)
qed

lemma appended_row_is_last:
  assumes "fst (progress_type_request env test tid rq s) = Returned True"
  shows "\<exists>st0 m0 m. fst (check_order env test tid st0 m0 s)
            = Returned (Some (p_status (last (test_progress (snd (progress_type_request env test tid rq s)) test)), m))
         \<and> test_progress (snd (progress_type_request env test tid rq s)) test =
             test_progress s test @
               [\<lparr>p_test_id = t_id test,
                 p_status = p_status (last (test_progress (snd (progress_type_request env test tid rq s)) test)),
                 p_message = m, p_timestamp = default_timestamp env\<rparr>]"
proof -
  from returned_True_stages [OF assms] obtain name st0 m0 st m where
    a: "rq_status rq = Some name" "from_string name = Inr st0" "rq_message rq = Some m0"
       "fst (check_order env test tid st0 m0 s) = Returned (Some (st, m))"
    by blast
  then have "progress (snd (progress_type_request env test tid rq s)) =
      progress s @ [\<lparr>p_test_id = t_id test, p_status = st, p_message = m,
                     p_timestamp = default_timestamp env\<rparr>]"
    by (simp add: recorded_progress)
  then have "test_progress (snd (progress_type_request env test tid rq s)) test =
      test_progress s test @ [\<lparr>p_test_id = t_id test, p_status = st, p_message = m,
                     p_timestamp = default_timestamp env\<rparr>]"
    by (simp add: test_progress_def)
  with a(4) show ?thesis by auto
qed

text \<open>
  C5. When a report is answered with True and the event it recorded is completed, the one
  status posted to GitHub (none when the post itself fails) is for the commit of the test
  and is FAILURE if the test has a result whose exit code differs from the expected one, or
  a result file with a \<open>got\<close> for a regression test that expects exit code 0; otherwise it
  is SUCCESS.
\<close>

theorem completed_outcome_reported:
  assumes "progress_type_request env test tid rq s = (Returned True, s')"
    and "p_status (last (test_progress s' test)) = completed"
  shows "\<exists>post. statuses_posted s' = statuses_posted s @ (if post_fails env post then [] else [post])
     \<and> gs_commit post = t_commit test \<and> gs_target post = t_id test
     \<and> gs_state post =
         (if 0 < length (filter (\<lambda>r. r_test_id r = t_id test \<and> r_exit_code r \<noteq> r_expected_rc r)
                           (test_results s))
             \<or> 0 < length (filter (\<lambda>f. f_test_id f = t_id test \<and> f_got f \<noteq> None
                                      \<and> (\<exists>t \<in> set (regression_tests s).
                                            rt_id t = f_regression_test_id f \<and> rt_expected_rc t = 0))
                              (test_result_files s))
          then FAILURE else SUCCESS)"
proof -
  have t: "fst (progress_type_request env test tid rq s) = Returned True"
    and s': "snd (progress_type_request env test tid rq s) = s'"
    using assms(1) by simp_all
  from returned_True_stages [OF t] obtain name st0 m0 st m where
    a: "rq_status rq = Some name" "from_string name = Inr st0" "rq_message rq = Some m0"
       "fst (check_order env test tid st0 m0 s) = Returned (Some (st, m))"
    and b: "let row = \<lparr>p_test_id = t_id test, p_status = st, p_message = m,
                     p_timestamp = default_timestamp env\<rparr>;
             s1 = snd (check_order env test tid st0 m0 s);
             s2 = s1\<lparr>progress := progress s1 @ [row]\<rparr>;
             s3 = snd (store_fetch_commit env test st s2);
             s4 = snd (close_test test tid st s3)
         in fst (store_fetch_commit env test st s2) = Returned ()
            \<and> fst (close_test test tid st s3) = Returned ()
            \<and> fst (post_update env test st row s4) = Returned True
            \<and> snd (progress_type_request env test tid rq s) = snd (post_update env test st row s4)"
    by blast
  define row where "row = \<lparr>p_test_id = t_id test, p_status = st, p_message = m,
                     p_timestamp = default_timestamp env\<rparr>"
  define s1 where "s1 = snd (check_order env test tid st0 m0 s)"
  define s2 where "s2 = s1\<lparr>progress := progress s1 @ [row]\<rparr>"
  define s3 where "s3 = snd (store_fetch_commit env test st s2)"
  define s4 where "s4 = snd (close_test test tid st s3)"
  from b have p: "fst (post_update env test st row s4) = Returned True"
    and e: "s' = snd (post_update env test st row s4)"
    unfolding s' by (simp_all add: Let_def row_def s1_def s2_def s3_def s4_def)
  have "progress s' = progress s @ [row]"
    using a s' by (simp add: recorded_progress row_def flip: s')
  then have "p_status (last (test_progress s' test)) = st"
    by (simp add: test_progress_def row_def)
  with assms(2) have st: "st = completed" by simp
  have f: "statuses_posted s4 = statuses_posted s" "test_results s4 = test_results s"
    "test_result_files s4 = test_result_files s" "regression_tests s4 = regression_tests s"
    by (simp_all add: s4_def s3_def s2_def s1_def close_test_fields store_fetch_commit_fields
        check_order_fields)
  have o: "outcome test s4 = outcome test s"
    by (rule counts_unchanged) (simp_all add: f)
  let ?post = "\<lparr>gs_commit = t_commit test, gs_state = fst (outcome test s),
                    gs_description = snd (outcome test s),
                    gs_context = ''CI - '' @ platform_value (t_platform test),
                    gs_target = t_id test\<rparr>"
  have "statuses_posted s' = statuses_posted s @ (if post_fails env ?post then [] else [?post])"
    using post_update_completed [of env test row s4 True] p
    unfolding e st by (simp add: o f Let_def)
  moreover have "gs_state ?post =
         (if 0 < length (filter (\<lambda>r. r_test_id r = t_id test \<and> r_exit_code r \<noteq> r_expected_rc r)
                           (test_results s))
             \<or> 0 < length (filter (\<lambda>f. f_test_id f = t_id test \<and> f_got f \<noteq> None
                                      \<and> (\<exists>t \<in> set (regression_tests s).
                                            rt_id t = f_regression_test_id f \<and> rt_expected_rc t = 0))
                              (test_result_files s))
          then FAILURE else SUCCESS)"
  proof -
    define n1 where "n1 = length (filter (\<lambda>r. r_test_id r = t_id test \<and> r_exit_code r \<noteq> r_expected_rc r)
                           (test_results s))"
    define n2 where "n2 = length (filter (\<lambda>f. f_test_id f = t_id test \<and> f_got f \<noteq> None
                                      \<and> (\<exists>t \<in> set (regression_tests s).
                                            rt_id t = f_regression_test_id f \<and> rt_expected_rc t = 0))
                              (test_result_files s))"
    have c: "crashes test s = n1"
      by (simp add: crashes_def n1_def)
    have "filter (\<lambda>f. f_test_id f = t_id test \<and> f_regression_test_id f \<in> set (results_zero_rc s)
                \<and> f_got f \<noteq> None) (test_result_files s)
        = filter (\<lambda>f. f_test_id f = t_id test \<and> f_got f \<noteq> None
                                      \<and> (\<exists>t \<in> set (regression_tests s).
                                            rt_id t = f_regression_test_id f \<and> rt_expected_rc t = 0))
            (test_result_files s)"
      by (rule filter_cong) (force simp: results_zero_rc_def)+
    then have r: "results test s = n2"
      unfolding results_def n2_def by (rule arg_cong)
    show ?thesis
      unfolding n1_def [symmetric] n2_def [symmetric]
      by (simp add: outcome_def c r)
  qed
  ultimately show ?thesis
    by (intro exI [of _ ?post]) simp
qed

text \<open>
  C8. A report of building or testing whose rank is above the last recorded rank is
  answered with True only if a Kvm row of the test exists; for an open test without such a
  row the call raises AttributeError and leaves the state as it was.
\<close>

theorem forward_progress_needs_lease:
  "(test_progress s test \<noteq> []
      \<and> rank env (p_status (last (test_progress s test))) < rank env st0
      \<and> st0 \<in> {building, testing}
      \<and> rq_status rq = Some name \<and> from_string name = Inr st0
      \<and> fst (progress_type_request env test tid rq s) = Returned True
      \<longrightarrow> (\<exists>k \<in> set (kvm s). k_test_id k = tid))
   \<and> (test_progress s test \<noteq> []
      \<and> p_status (last (test_progress s test)) \<notin> {completed, canceled}
      \<and> rank env (p_status (last (test_progress s test))) < rank env st0
      \<and> st0 \<in> {building, testing}
      \<and> rq_status rq = Some name \<and> from_string name = Inr st0 \<and> rq_message rq = Some m0
      \<and> (\<forall>k \<in> set (kvm s). k_test_id k \<noteq> tid)
      \<longrightarrow> progress_type_request env test tid rq s = (Raised AttributeError, s))"
proof (intro conjI impI)
  assume h: "test_progress s test \<noteq> []
      \<and> rank env (p_status (last (test_progress s test))) < rank env st0
      \<and> st0 \<in> {building, testing}
      \<and> rq_status rq = Some name \<and> from_string name = Inr st0
      \<and> fst (progress_type_request env test tid rq s) = Returned True"
  then have t: "fst (progress_type_request env test tid rq s) = Returned True"
    by simp
  from returned_True_stages [OF t] obtain name' st0' m0 st m where
    r: "rq_status rq = Some name'" "from_string name' = Inr st0'"
       "fst (check_order env test tid st0' m0 s) = Returned (Some (st, m))"
    by blast
  from r(1) r(2) h have "st0' = st0"
    by simp
  with r(3) have c: "fst (check_order env test tid st0 m0 s) = Returned (Some (st, m))"
    by simp
  from check_order_result [OF c] h
  have "p_status (last (test_progress s test)) \<notin> {completed, canceled}"
    by auto
  with check_order_needs_lease [OF c] h have "kvm_by_test tid s \<noteq> None"
    by blast
  then show "\<exists>k \<in> set (kvm s). k_test_id k = tid"
    by (auto simp: kvm_by_test_def find_None_iff)
next
  assume h: "test_progress s test \<noteq> []
      \<and> p_status (last (test_progress s test)) \<notin> {completed, canceled}
      \<and> rank env (p_status (last (test_progress s test))) < rank env st0
      \<and> st0 \<in> {building, testing}
      \<and> rq_status rq = Some name \<and> from_string name = Inr st0 \<and> rq_message rq = Some m0
      \<and> (\<forall>k \<in> set (kvm s). k_test_id k \<noteq> tid)"
  then have "kvm_by_test tid s = None"
    by (auto simp: kvm_by_test_def find_None_iff)
  with h have "check_order env test tid st0 m0 s = (Raised AttributeError, s)"
    by (intro check_order_without_lease) simp_all
  with h show "progress_type_request env test tid rq s = (Raised AttributeError, s)"
    by (simp add: progress_type_request_def and_then_def)
qed

subsection \<open>The average running time\<close>

















subsection \<open>Examples\<close>

lemmas ingest_defs2 = progress_type_request_def check_order_def store_fetch_commit_def close_test_def
  post_update_def update_average_def first_average_def outcome_def crashes_def results_def
  results_zero_rc_def comment_pr_def update_build_badge_def start_platforms_def post_status_def
  and_then_def test_progress_def test_fork_def kvm_by_test_def kvm_assign_def gd_first_def gd_assign_def
  progress_step_def from_string_def is_main_repo_def progress_data_def py_int_def
  sublist_code prefix_code set_avg_time_def int_of_def float_of_def dt_sub_def replace_tzinfo_None_def
  float_text_def

lemmas example_defs2 = example_env_def example_test_def example_state_def
  empty_state_def event_def report_def started_state_def leased_state_def closed_state_def
  warm_state_def example_regression_test_def rounding_state_def






text \<open>
  C1 on examples: a leased test in preparation receives building, testing, building and
  completed, and its log becomes preparation, building, testing, canceled; a test in
  testing receives preparation; a completed test receives testing.
\<close>

theorem progress_order_enforced_witness:
  "ordered_log example_env (test_progress leased_state example_test)
   \<and> ordered_log example_env
        (test_progress
           (submit_all example_env example_test
              [(20, naive 20, report ''building'' ''make''), (30, naive 30, report ''testing'' ''run''),
               (40, naive 40, report ''building'' ''again''), (50, naive 50, report ''completed'' ''late'')]
              leased_state) example_test)
   \<and> map p_status
        (progress
           (submit_all example_env example_test
              [(20, naive 20, report ''building'' ''make''), (30, naive 30, report ''testing'' ''run''),
               (40, naive 40, report ''building'' ''again''), (50, naive 50, report ''completed'' ''late'')]
              leased_state))
       = [preparation, building, testing, canceled]
   \<and> progress (snd (progress_type_request example_env example_test 7
                       (report ''preparation'' ''again'')
                       (example_state\<lparr>progress := [event 7 testing ''run'' 50]\<rparr>)))
       = [event 7 testing ''run'' 50,
          \<lparr>p_test_id = 7, p_status = canceled, p_message = ''Duplicate Entries'',
           p_timestamp = default_timestamp example_env\<rparr>]
   \<and> test_progress closed_state example_test \<noteq> []
   \<and> p_status (last (test_progress closed_state example_test)) = completed
   \<and> progress_type_request example_env example_test 7 (report ''testing'' ''late'') closed_state
       = (Returned False, closed_state)
   \<and> progress_reporter example_env 7 ''secret'' (report ''testing'' ''late'') closed_state
       = (Returned ''FAIL'', closed_state)"
proof -
  have a: "ordered_log example_env (test_progress leased_state example_test)"
    by (simp add: test_progress_def example_defs2)
  have b: "test_progress (example_state\<lparr>progress := [event 7 testing ''run'' 50]\<rparr>) example_test \<noteq> []
      \<and> p_status (last (test_progress (example_state\<lparr>progress := [event 7 testing ''run'' 50]\<rparr>) example_test))
          \<notin> {completed, canceled}
      \<and> rq_status (report ''preparation'' ''again'') = Some ''preparation''
      \<and> from_string ''preparation'' = Inr preparation
      \<and> rq_message (report ''preparation'' ''again'') = Some ''again''
      \<and> rank example_env preparation
          < rank example_env (p_status (last (test_progress (example_state\<lparr>progress := [event 7 testing ''run'' 50]\<rparr>) example_test)))"
    by (simp add: test_progress_def example_defs2 from_string_def)
  have c: "test_progress closed_state example_test \<noteq> []
      \<and> p_status (last (test_progress closed_state example_test)) \<in> {completed, canceled}
      \<and> rq_status (report ''testing'' ''late'') = Some ''testing''
      \<and> from_string ''testing'' = Inr testing
      \<and> rq_message (report ''testing'' ''late'') = Some ''late''"
    by (simp add: test_progress_def example_defs2 from_string_def)
  have d: "map p_status
        (progress
           (submit_all example_env example_test
              [(20, naive 20, report ''building'' ''make''), (30, naive 30, report ''testing'' ''run''),
               (40, naive 40, report ''building'' ''again''), (50, naive 50, report ''completed'' ''late'')]
              leased_state))
       = [preparation, building, testing, canceled]"
    by (simp add: ingest_defs2 example_defs2 naive_def Let_def)
  from progress_order_enforced [where env = example_env and s = leased_state
        and test = example_test and reports = "[(20, naive 20, report ''building'' ''make''),
          (30, naive 30, report ''testing'' ''run''), (40, naive 40, report ''building'' ''again''),
          (50, naive 50, report ''completed'' ''late'')]"] a
  have e: "ordered_log example_env
        (test_progress
           (submit_all example_env example_test
              [(20, naive 20, report ''building'' ''make''), (30, naive 30, report ''testing'' ''run''),
               (40, naive 40, report ''building'' ''again''), (50, naive 50, report ''completed'' ''late'')]
              leased_state) example_test)"
    by blast
  from progress_order_enforced [where env = example_env
        and s = "example_state\<lparr>progress := [event 7 testing ''run'' 50]\<rparr>"
        and test = example_test and rq = "report ''preparation'' ''again''"
        and name = "''preparation''" and ?st0.0 = preparation and ?m0.0 = "''again''" and tid = 7] b
  have f: "progress (snd (progress_type_request example_env example_test 7
                       (report ''preparation'' ''again'')
                       (example_state\<lparr>progress := [event 7 testing ''run'' 50]\<rparr>)))
       = progress (example_state\<lparr>progress := [event 7 testing ''run'' 50]\<rparr>) @
          [\<lparr>p_test_id = t_id example_test, p_status = canceled, p_message = ''Duplicate Entries'',
           p_timestamp = default_timestamp example_env\<rparr>]"
    by blast
  from progress_order_enforced [where env = example_env and s = closed_state
        and test = example_test and rq = "report ''testing'' ''late''"
        and name = "''testing''" and ?st0.0 = testing and ?m0.0 = "''late''" and tid = 7] c
  have g: "progress_type_request example_env example_test 7 (report ''testing'' ''late'') closed_state
       = (Returned False, closed_state)"
    by blast
  from f have f': "progress (snd (progress_type_request example_env example_test 7
                       (report ''preparation'' ''again'')
                       (example_state\<lparr>progress := [event 7 testing ''run'' 50]\<rparr>)))
       = [event 7 testing ''run'' 50,
          \<lparr>p_test_id = 7, p_status = canceled, p_message = ''Duplicate Entries'',
           p_timestamp = default_timestamp example_env\<rparr>]"
    by (simp add: example_test_def)
  have h: "p_status (last (test_progress closed_state example_test)) = completed"
    by (simp add: test_progress_def example_defs2)
  have i: "find (\<lambda>t. t_id t = 7) (tests closed_state) = Some example_test
      \<and> t_token example_test = ''secret''
      \<and> rq_type (report ''testing'' ''late'') = Some ''progress''"
    by (simp add: example_defs2)
  from progress_order_enforced [where env = example_env and s = closed_state
        and test = example_test and rq = "report ''testing'' ''late''"
        and name = "''testing''" and ?st0.0 = testing and ?m0.0 = "''late''" and tid = 7
        and token = "''secret''"] c i
  have j: "progress_reporter example_env 7 ''secret'' (report ''testing'' ''late'') closed_state
       = (Returned ''FAIL'', closed_state)"
    by blast
  show ?thesis
    using a e d f' c g h j by blast
qed

lemmas example_defs3 = example_defs2 tested_state_def equality_report_def

text \<open>
  C5 on an example: a test with one mismatching result file for a regression test that
  expects exit code 0 is completed and reported as a failure.
\<close>

theorem completed_outcome_reported_witness:
  "fst (progress_type_request example_env example_test 7 (report ''completed'' ''done'') tested_state)
     = Returned True
   \<and> p_status (last (test_progress
        (snd (progress_type_request example_env example_test 7 (report ''completed'' ''done'')
                tested_state)) example_test)) = completed
   \<and> map gs_state (statuses_posted
        (snd (progress_type_request example_env example_test 7 (report ''completed'' ''done'')
                tested_state))) = [FAILURE]"
proof -
  let ?r = "progress_type_request example_env example_test 7 (report ''completed'' ''done'') tested_state"
  have a: "fst ?r = Returned True"
    by (simp add: ingest_defs2 example_defs3 Let_def)
  have b: "p_status (last (test_progress (snd ?r) example_test)) = completed"
    by (simp add: ingest_defs2 example_defs3 Let_def)
  have c: "?r = (Returned True, snd ?r)"
    using a by (simp add: prod_eq_iff)
  from completed_outcome_reported [OF c b] obtain post where
    p: "statuses_posted (snd ?r) = statuses_posted tested_state
          @ (if post_fails example_env post then [] else [post])"
    and q: "gs_state post =
         (if 0 < length (filter (\<lambda>r. r_test_id r = t_id example_test \<and> r_exit_code r \<noteq> r_expected_rc r)
                           (test_results tested_state))
             \<or> 0 < length (filter (\<lambda>f. f_test_id f = t_id example_test \<and> f_got f \<noteq> None
                                      \<and> (\<exists>t \<in> set (regression_tests tested_state).
                                            rt_id t = f_regression_test_id f \<and> rt_expected_rc t = 0))
                              (test_result_files tested_state))
          then FAILURE else SUCCESS)"
    by blast
  from q have "gs_state post = FAILURE"
    by (simp add: example_defs3)
  with p have "map gs_state (statuses_posted (snd ?r)) = [FAILURE]"
    by (simp add: example_defs3)
  with a b show ?thesis by blast
qed



text \<open>
  C8 on examples: the report of building for a test in preparation, with and without its
  Kvm row.
\<close>

theorem forward_progress_needs_lease_witness:
  "fst (progress_type_request example_env example_test 7 (report ''building'' ''make'') leased_state)
     = Returned True
   \<and> map k_test_id (kvm leased_state) = [7]
   \<and> kvm started_state = []
   \<and> progress_type_request example_env example_test 7 (report ''building'' ''make'') started_state
       = (Raised AttributeError, started_state)"
proof -
  have a: "test_progress leased_state example_test \<noteq> []
      \<and> rank example_env (p_status (last (test_progress leased_state example_test)))
          < rank example_env building
      \<and> building \<in> {building, testing}
      \<and> rq_status (report ''building'' ''make'') = Some ''building''
      \<and> from_string ''building'' = Inr building
      \<and> fst (progress_type_request example_env example_test 7 (report ''building'' ''make'')
                leased_state) = Returned True"
    by (simp add: ingest_defs2 example_defs2 Let_def)
  have b: "test_progress started_state example_test \<noteq> []
      \<and> p_status (last (test_progress started_state example_test)) \<notin> {completed, canceled}
      \<and> rank example_env (p_status (last (test_progress started_state example_test)))
          < rank example_env building
      \<and> building \<in> {building, testing}
      \<and> rq_status (report ''building'' ''make'') = Some ''building''
      \<and> from_string ''building'' = Inr building
      \<and> rq_message (report ''building'' ''make'') = Some ''make''
      \<and> (\<forall>k \<in> set (kvm started_state). k_test_id k \<noteq> 7)"
    by (simp add: test_progress_def from_string_def example_defs2)
  from forward_progress_needs_lease [where env = example_env and s = leased_state
      and test = example_test and ?st0.0 = building and rq = "report ''building'' ''make''"
      and name = "''building''" and tid = 7] a
  have c: "\<exists>k \<in> set (kvm leased_state). k_test_id k = 7"
    by blast
  from forward_progress_needs_lease [where env = example_env and s = started_state
      and test = example_test and ?st0.0 = building and rq = "report ''building'' ''make''"
      and name = "''building''" and ?m0.0 = "''make''" and tid = 7] b
  have d: "progress_type_request example_env example_test 7 (report ''building'' ''make'')
             started_state = (Raised AttributeError, started_state)"
    by blast
  have e: "map k_test_id (kvm leased_state) = [7]" "kvm started_state = []"
    by (simp_all add: example_defs2)
  from a d e show ?thesis by blast
qed

subsection \<open>The scheduling pass\<close>

text \<open>
  C3. A pass that finds the machine running with a Kvm row: if the row is at least
  \<open>KVM_MAX_RUNTIME\<close> minutes old, the pass appends a canceled ``Runtime exceeded'' event
  for the test of the row, deletes the row and calls \<open>destroy\<close> on the machine, and goes on
  to the choice of the next test only if that call succeeded; if the row is younger, the
  pass changes nothing.
\<close>

theorem expired_lease_reclaimed:
  assumes "kvm_name \<noteq> []"
    and "\<forall>m. find (\<lambda>m. m_platform m = platform) (maintenance_modes s) = Some m \<longrightarrow> \<not> m_disabled m"
    and "conn_ok env" and "vm_found env" and "\<not> vm_shutoff env"
    and "kvm_first kvm_name s = Some lease"
  shows "(now env - k_timestamp lease \<ge> of_int (kvm_max_runtime env) * 60 \<longrightarrow>
           (let s1 = s\<lparr>progress := progress s @
                          [\<lparr>p_test_id = k_test_id lease, p_status = canceled,
                            p_message = ''Runtime exceeded'',
                            p_timestamp = default_timestamp env\<rparr>],
                        kvm := remove1 lease (kvm s),
                        vm_calls := vm_calls s @ [Destroy]\<rparr>
            in kvm_processor env kvm_name platform s =
                 (if destroy_ok env then schedule env kvm_name platform (drop_stale kvm_name s1)
                  else (Returned (), s1))))
       \<and> (now env - k_timestamp lease < of_int (kvm_max_runtime env) * 60 \<longrightarrow>
            kvm_processor env kvm_name platform s = (Returned (), s))"
  using assms
  by (auto simp: kvm_processor_def check_running_def Let_def split: option.splits)

lemma first_by_id_None: "first_by_id ts = None \<longleftrightarrow> ts = []"
proof -
  have "sort_key t_id ts = [] \<longleftrightarrow> ts = []"
    by (metis length_sort length_0_conv)
  then show ?thesis
    by (cases "sort_key t_id ts") (simp_all add: first_by_id_def)
qed

lemma first_by_id_Some:
  assumes "first_by_id ts = Some t"
  shows "t \<in> set ts" and "\<forall>u \<in> set ts. t_id t \<le> t_id u"
proof -
  from assms obtain rest where r: "sort_key t_id ts = t # rest"
    by (auto simp: first_by_id_def split: list.splits)
  have "set (sort_key t_id ts) = set ts" by simp
  with r have s: "set ts = insert t (set rest)" by simp
  then show "t \<in> set ts" by simp
  have "sorted (map t_id (sort_key t_id ts))" by (rule sorted_sort_key)
  with r have "\<forall>u \<in> set rest. t_id t \<le> t_id u" by simp
  with s show "\<forall>u \<in> set ts. t_id t \<le> t_id u" by auto
qed

lemma unfinished_tests_alt:
  "unfinished_tests platform s =
     filter (\<lambda>t. t_id t \<notin> set (finished_tests s) \<and> t_platform t = platform) (tests s)"
  unfolding unfinished_tests_def finished_tests_def
  by (rule filter_cong) (force simp: list_ex_iff)+

lemma select_test_oldest:
  assumes "main_fork env s = Some fork"
  shows "\<exists>r. select_test env platform s = Inr r \<and>
     (if \<exists>t \<in> set (unfinished_tests platform s). t_fork_id t = fk_id fork
      then \<exists>t. r = Some t \<and> t \<in> set (unfinished_tests platform s) \<and> t_fork_id t = fk_id fork
             \<and> (\<forall>u \<in> set (unfinished_tests platform s).
                   t_fork_id u = fk_id fork \<longrightarrow> t_id t \<le> t_id u)
      else if unfinished_tests platform s \<noteq> []
      then \<exists>t. r = Some t \<and> t \<in> set (unfinished_tests platform s)
             \<and> (\<forall>u \<in> set (unfinished_tests platform s). t_id t \<le> t_id u)
      else r = None)"
proof -
  let ?all = "filter (\<lambda>t. t_id t \<notin> set (finished_tests s) \<and> t_platform t = platform) (tests s)"
  let ?own = "filter (\<lambda>t. t_id t \<notin> set (finished_tests s) \<and> t_platform t = platform
                          \<and> t_fork_id t = fk_id fork) (tests s)"
  have u: "unfinished_tests platform s = ?all"
    by (rule unfinished_tests_alt)
  have own: "set ?own = {t \<in> set ?all. t_fork_id t = fk_id fork}"
    by auto
  have sel: "select_test env platform s =
      (case first_by_id ?own of Some test \<Rightarrow> Inr (Some test) | None \<Rightarrow> Inr (first_by_id ?all))"
    by (simp add: select_test_def assms Let_def)
  show ?thesis
  proof (cases "first_by_id ?own")
    case (Some t)
    from first_by_id_Some [OF Some] own
    have "t \<in> set ?all" "t_fork_id t = fk_id fork"
      "\<forall>u \<in> set ?all. t_fork_id u = fk_id fork \<longrightarrow> t_id t \<le> t_id u"
      by auto
    then show ?thesis
      unfolding u sel Some by auto
  next
    case None
    then have e: "?own = []" by (simp add: first_by_id_None)
    have no: "\<not> (\<exists>t \<in> set ?all. t_fork_id t = fk_id fork)"
    proof
      assume "\<exists>t \<in> set ?all. t_fork_id t = fk_id fork"
      then obtain t where "t \<in> set ?all" "t_fork_id t = fk_id fork" by blast
      then have "t \<in> set ?own" by simp
      with e show False by simp
    qed
    show ?thesis
    proof (cases "first_by_id ?all")
      case (Some t)
      from first_by_id_Some [OF Some] have "t \<in> set ?all" "\<forall>u \<in> set ?all. t_id t \<le> t_id u"
        by auto
      moreover have "?all \<noteq> []"
        using Some by (auto simp: first_by_id_None [symmetric])
      ultimately show ?thesis
        unfolding u sel None Some using no by auto
    next
      case n: None
      then have "?all = []" by (simp add: first_by_id_None)
      then show ?thesis
        unfolding u sel None n by simp
    qed
  qed
qed

lemma check_running_fields:
  "tests (snd (check_running env kvm_name s)) = tests s"
  "forks (snd (check_running env kvm_name s)) = forks s"
  "general_data (snd (check_running env kvm_name s)) = general_data s"
  "test_result_files (snd (check_running env kvm_name s)) = test_result_files s"
  "categories (snd (check_running env kvm_name s)) = categories s"
  "xml_files (snd (check_running env kvm_name s)) = xml_files s"
  by (simp_all add: check_running_def Let_def split: option.splits)

lemma drop_stale_fields:
  "tests (drop_stale kvm_name s) = tests s"
  "forks (drop_stale kvm_name s) = forks s"
  "general_data (drop_stale kvm_name s) = general_data s"
  "test_result_files (drop_stale kvm_name s) = test_result_files s"
  "categories (drop_stale kvm_name s) = categories s"
  "xml_files (drop_stale kvm_name s) = xml_files s"
  by (simp_all add: drop_stale_def split: option.splits)

lemma pass_reaches_schedule:
  assumes "kvm_name \<noteq> []"
    and "\<forall>m. find (\<lambda>m. m_platform m = platform) (maintenance_modes s) = Some m \<longrightarrow> \<not> m_disabled m"
    and "conn_ok env" and "vm_found env"
    and "check_running env kvm_name s = (True, s1)"
  shows "kvm_processor env kvm_name platform s = schedule env kvm_name platform (drop_stale kvm_name s1)"
  using assms by (auto simp: kvm_processor_def split: option.splits)

text \<open>
  C7. A pass that reaches the choice of the test, when the row of the main repository
  exists. The queue is the unfinished tests of the platform in the state the pass has
  reached there. If the queue has a test of the main repository, the pass goes on with such
  a test of the lowest id, otherwise with a test of the queue of the lowest id: it deletes
  the test if it is a pull request test without a number and launches it if not. If the
  queue is empty the pass ends there and changes nothing more.
\<close>

theorem oldest_unfinished_test_selected:
  assumes "kvm_name \<noteq> []"
    and "\<forall>m. find (\<lambda>m. m_platform m = platform) (maintenance_modes s) = Some m \<longrightarrow> \<not> m_disabled m"
    and "conn_ok env" and "vm_found env"
    and "check_running env kvm_name s = (True, s1)"
    and "main_fork env s = Some fork"
  shows "let s2 = drop_stale kvm_name s1; queue = unfinished_tests platform s2
     in if \<exists>t \<in> set queue. t_fork_id t = fk_id fork
        then \<exists>t. t \<in> set queue \<and> t_fork_id t = fk_id fork
               \<and> (\<forall>u \<in> set queue. t_fork_id u = fk_id fork \<longrightarrow> t_id t \<le> t_id u)
               \<and> kvm_processor env kvm_name platform s =
                   (if t_test_type t = pull_request \<and> t_pr_nr t = 0
                    then (Returned (), s2\<lparr>tests := remove1 t (tests s2)\<rparr>)
                    else launch env kvm_name platform t s2)
        else if queue \<noteq> []
        then \<exists>t. t \<in> set queue \<and> (\<forall>u \<in> set queue. t_id t \<le> t_id u)
               \<and> kvm_processor env kvm_name platform s =
                   (if t_test_type t = pull_request \<and> t_pr_nr t = 0
                    then (Returned (), s2\<lparr>tests := remove1 t (tests s2)\<rparr>)
                    else launch env kvm_name platform t s2)
        else kvm_processor env kvm_name platform s = (Returned (), s2)"
proof -
  define s2 where "s2 = drop_stale kvm_name s1"
  have s1: "s1 = snd (check_running env kvm_name s)"
    using assms(5) by simp
  have "forks s2 = forks s"
    by (simp add: s2_def s1 drop_stale_fields check_running_fields)
  then have f: "main_fork env s2 = Some fork"
    using assms(6) by (simp add: main_fork_def)
  have k: "kvm_processor env kvm_name platform s = schedule env kvm_name platform s2"
    unfolding s2_def using assms(1-5) by (rule pass_reaches_schedule)
  from select_test_oldest [OF f, of platform] obtain r where
    r: "select_test env platform s2 = Inr r"
    and c: "if \<exists>t \<in> set (unfinished_tests platform s2). t_fork_id t = fk_id fork
      then \<exists>t. r = Some t \<and> t \<in> set (unfinished_tests platform s2) \<and> t_fork_id t = fk_id fork
             \<and> (\<forall>u \<in> set (unfinished_tests platform s2).
                   t_fork_id u = fk_id fork \<longrightarrow> t_id t \<le> t_id u)
      else if unfinished_tests platform s2 \<noteq> []
      then \<exists>t. r = Some t \<and> t \<in> set (unfinished_tests platform s2)
             \<and> (\<forall>u \<in> set (unfinished_tests platform s2). t_id t \<le> t_id u)
      else r = None"
    by blast
  have some: "schedule env kvm_name platform s2 =
      (if t_test_type t = pull_request \<and> t_pr_nr t = 0
       then (Returned (), s2\<lparr>tests := remove1 t (tests s2)\<rparr>)
       else launch env kvm_name platform t s2)" if "r = Some t" for t
    using that by (simp add: schedule_def r)
  have none: "schedule env kvm_name platform s2 = (Returned (), s2)" if "r = None"
    using that by (simp add: schedule_def r)
  show ?thesis
  proof (cases "\<exists>t \<in> set (unfinished_tests platform s2). t_fork_id t = fk_id fork")
    case True
    with c obtain t where "r = Some t" "t \<in> set (unfinished_tests platform s2)"
      "t_fork_id t = fk_id fork"
      "\<forall>u \<in> set (unfinished_tests platform s2). t_fork_id u = fk_id fork \<longrightarrow> t_id t \<le> t_id u"
      by auto
    with some [of t] True show ?thesis
      unfolding Let_def s2_def [symmetric] k by auto
  next
    case False
    show ?thesis
    proof (cases "unfinished_tests platform s2 = []")
      case True
      with c False have "r = None" by auto
      with none False True show ?thesis
        unfolding Let_def s2_def [symmetric] k by auto
    next
      case ne: False
      with c False obtain t where "r = Some t" "t \<in> set (unfinished_tests platform s2)"
        "\<forall>u \<in> set (unfinished_tests platform s2). t_id t \<le> t_id u"
        by auto
      with some [of t] False ne show ?thesis
        unfolding Let_def s2_def [symmetric] k by auto
    qed
  qed
qed

lemma map_filter_rows:
  "List.map_filter (\<lambda>f. if Q f then g f else None) (filter P xs)
     = List.map_filter g (filter (\<lambda>f. P f \<and> Q f) xs)"
  by (induction xs) (auto simp: map_filter_simps split: option.splits)

lemma last_commit_files_alt:
  "last_commit_files s last_commit rt out =
     (case mismatches_of s last_commit rt out of [] \<Rightarrow> None | got # _ \<Rightarrow> Some got)"
proof -
  have "(\<lambda>f. (f_test_id f = t_id last_commit \<and> f_regression_test_id f = rt_id rt)
               \<and> f_regression_test_output_id f = o_id out)
      = (\<lambda>f. f_test_id f = t_id last_commit \<and> f_regression_test_id f = rt_id rt
               \<and> f_regression_test_output_id f = o_id out)"
    by auto
  then show ?thesis
    unfolding last_commit_files_def last_files_def mismatches_of_def map_filter_rows
    by simp
qed

lemma correct_references_file_node:
  "map (\<lambda>c. (i, map_of (xml_attrs (file_node env s last_commit rt out)) ''id'', xml_text c))
     (children_named ''correct'' (file_node env s last_commit rt out))
   = [(i, Some (str_int (o_id out)),
       case mismatches_of s last_commit rt out of
         [] \<Rightarrow> filename_correct env out
       | got # _ \<Rightarrow> create_correct_filename env out got)]"
  by (simp add: file_node_def children_named_def last_commit_files_alt split: list.splits)

lemma single_test_references:
  "correct_references (single_test env s last_commit regression_ids category) =
     concat (map (\<lambda>rt.
       map (\<lambda>out. (Some (str_int (rt_id rt)), Some (str_int (o_id out)),
                    case mismatches_of s last_commit rt out of
                      [] \<Rightarrow> filename_correct env out
                    | got # _ \<Rightarrow> create_correct_filename env out got))
         (rt_output_files rt))
       (filter (\<lambda>t. rt_id t \<in> set regression_ids) (c_regression_tests category)))"
proof -
  have e: "concat (map (\<lambda>compare.
         concat (map (\<lambda>file.
           map (\<lambda>c. (map_of (xml_attrs (entry_node env s last_commit rt)) ''id'',
                      map_of (xml_attrs file) ''id'', xml_text c))
             (children_named ''correct'' file))
           (children_named ''file'' compare)))
         (children_named ''compare'' (entry_node env s last_commit rt)))
      = map (\<lambda>out. (Some (str_int (rt_id rt)), Some (str_int (o_id out)),
                    case mismatches_of s last_commit rt out of
                      [] \<Rightarrow> filename_correct env out
                    | got # _ \<Rightarrow> create_correct_filename env out got))
         (rt_output_files rt)" for rt
  proof -
    have c: "children_named ''compare'' (entry_node env s last_commit rt) =
        [Element ''compare'' [] [] (map (file_node env s last_commit rt) (rt_output_files rt))]"
      by (simp add: children_named_def entry_node_def)
    have d: "children_named ''file''
        (Element ''compare'' [] [] (map (file_node env s last_commit rt) (rt_output_files rt)))
        = map (file_node env s last_commit rt) (rt_output_files rt)"
      by (simp add: children_named_def file_node_def)
    have i: "map_of (xml_attrs (entry_node env s last_commit rt)) ''id'' = Some (str_int (rt_id rt))"
      by (simp add: entry_node_def)
    show ?thesis
      unfolding c i
      by (simp add: d comp_def correct_references_file_node concat_map_singleton)
  qed
  have t: "children_named ''entry'' (single_test env s last_commit regression_ids category)
      = map (entry_node env s last_commit)
          (filter (\<lambda>t. rt_id t \<in> set regression_ids) (c_regression_tests category))"
    by (simp add: children_named_def single_test_def entry_node_def)
  show ?thesis
    unfolding correct_references_def t
    by (simp add: comp_def e)
qed

lemma multi_test_references: "correct_references (multi_test written) = []"
  by (simp add: correct_references_def multi_test_def children_named_def)

lemma single_test_rows:
  assumes "test_result_files s' = test_result_files s"
  shows "single_test env s' run ids c = single_test env s run ids c"
proof -
  have "file_node env s' run rt = file_node env s run rt" for rt
    by (intro ext) (simp add: file_node_def last_commit_files_def last_files_def assms)
  then have "entry_node env s' run = entry_node env s run"
    by (intro ext) (simp add: entry_node_def)
  then show ?thesis
    by (simp add: single_test_def)
qed

lemma fold_save_xml_to_file:
  "xml_files (fold (\<lambda>c. save_xml_to_file (doc c) folder (name c)) cs s)
     = xml_files s @ map (\<lambda>c. (path_join folder (name c), doc c)) cs"
  by (induction cs arbitrary: s) (simp_all add: save_xml_to_file_def)

lemma generate_test_files_xml:
  assumes "general_data s' = general_data s" and "tests s' = tests s"
    and "test_result_files s' = test_result_files s" and "categories s' = categories s"
    and "gd_first (''fetch_commit_'' @ platform_value platform) s = Some pin"
    and "find (\<lambda>t. Txt (t_commit t) = gd_value pin \<and> t_platform t = platform) (tests s) = Some run"
  shows "xml_files (snd (generate_test_files env kvm_name platform test s')) =
     xml_files s'
     @ map (\<lambda>c. (path_join
                    (path_join (path_join (path_join (sample_repository env) ''vm_data'') kvm_name)
                       ''ci-tests'')
                    (c_name c @ ''.xml''),
                  single_test env s run (get_customized_regressiontests env test) c))
         (written_categories (get_customized_regressiontests env test) s)
     @ [(path_join
           (path_join (path_join (path_join (sample_repository env) ''vm_data'') kvm_name)
              ''ci-tests'')
           ''TestAll.xml'',
         multi_test (written_categories (get_customized_regressiontests env test) s))]"
proof -
  have g: "gd_first (''fetch_commit_'' @ platform_value platform) s' = Some pin"
    using assms(5) by (simp add: gd_first_def assms(1))
  have w: "written_categories ids s' = written_categories ids s" for ids
    by (simp add: written_categories_def assms(4))
  show ?thesis
    unfolding generate_test_files_def Let_def g assms(2) w single_test_rows [OF assms(3)]
    using assms(6) by (simp add: fold_save_xml_to_file save_xml_to_file_def)
qed

lemma launch_xml_files:
  assumes "has_current_snapshot env" and "revert_ok env"
  shows "xml_files (snd (launch env kvm_name platform test s)) =
     xml_files (snd (generate_test_files env kvm_name platform test
        (s\<lparr>vm_calls := vm_calls s @ [RevertToSnapshot],
           files := (files s)(path_join (path_join (path_join (sample_repository env) ''vm_data'')
                                 kvm_name) ''reportURL'' \<mapsto> report_url env test)\<rparr>)))"
  using assms
  by (simp add: launch_def Let_def and_then_alt post_status_def
      split: result.splits sync_outcome.splits)

text \<open>
  C4, as amended. A pass that reaches the launch of a test, when \<open>fetch_commit_<platform>\<close>
  exists and a test of the platform has the commit it holds; the first such test is the
  run of the pinned commit. The pass writes one test file for each category with a
  regression test in scope and then \<open>TestAll.xml\<close>. In the file of a category, the
  \<open>correct\<close> element of every output file of every regression test in scope names the
  first \<open>got\<close> that the run of the pinned commit left for that regression test and output
  file (a file that did not match), and the canonical correct file of the output when
  that run left none.
\<close>

theorem correct_reference_is_baseline_mismatch:
  assumes "kvm_name \<noteq> []"
    and "\<forall>m. find (\<lambda>m. m_platform m = platform) (maintenance_modes s) = Some m \<longrightarrow> \<not> m_disabled m"
    and "conn_ok env" and "vm_found env"
    and "check_running env kvm_name s = (True, s1)"
    and "select_test env platform (drop_stale kvm_name s1) = Inr (Some test)"
    and "\<not> (t_test_type test = pull_request \<and> t_pr_nr test = 0)"
    and "has_current_snapshot env" and "revert_ok env"
    and "gd_first (''fetch_commit_'' @ platform_value platform) s = Some pin"
    and "find (\<lambda>t. Txt (t_commit t) = gd_value pin \<and> t_platform t = platform) (tests s)
           = Some baseline"
  shows "map (apsnd correct_references)
           (drop (length (xml_files s)) (xml_files (snd (kvm_processor env kvm_name platform s))))
     = map (\<lambda>c. (path_join
                    (path_join (path_join (path_join (sample_repository env) ''vm_data'') kvm_name)
                       ''ci-tests'')
                    (c_name c @ ''.xml''),
                  concat (map (\<lambda>rt.
                    map (\<lambda>out. (Some (str_int (rt_id rt)), Some (str_int (o_id out)),
                                 case mismatches_of s baseline rt out of
                                   [] \<Rightarrow> filename_correct env out
                                 | got # _ \<Rightarrow> create_correct_filename env out got))
                      (rt_output_files rt))
                    (filter (\<lambda>t. rt_id t \<in> set (get_customized_regressiontests env test))
                       (c_regression_tests c)))))
         (written_categories (get_customized_regressiontests env test) s)
       @ [(path_join
             (path_join (path_join (path_join (sample_repository env) ''vm_data'') kvm_name)
                ''ci-tests'')
             ''TestAll.xml'', [])]"
proof -
  define s2 where "s2 = drop_stale kvm_name s1"
  define s3 where "s3 = s2\<lparr>vm_calls := vm_calls s2 @ [RevertToSnapshot],
           files := (files s2)(path_join (path_join (path_join (sample_repository env) ''vm_data'')
                                 kvm_name) ''reportURL'' \<mapsto> report_url env test)\<rparr>"
  have s1: "s1 = snd (check_running env kvm_name s)"
    using assms(5) by simp
  have rows: "general_data s3 = general_data s" "tests s3 = tests s"
    "test_result_files s3 = test_result_files s" "categories s3 = categories s"
    "xml_files s3 = xml_files s"
    by (simp_all add: s3_def s2_def s1 drop_stale_fields check_running_fields)
  have "kvm_processor env kvm_name platform s = schedule env kvm_name platform s2"
    unfolding s2_def using assms(1-5) by (rule pass_reaches_schedule)
  also have "\<dots> = launch env kvm_name platform test s2"
    using assms(6,7) by (auto simp: schedule_def s2_def)
  finally have "xml_files (snd (kvm_processor env kvm_name platform s)) =
      xml_files (snd (generate_test_files env kvm_name platform test s3))"
    by (simp add: launch_xml_files [OF assms(8,9)] s3_def)
  also note generate_test_files_xml [OF rows(1-4) assms(10,11), of env kvm_name test]
  finally show ?thesis
    by (simp add: rows(5) single_test_references multi_test_references comp_def)
qed

subsection \<open>A closed pull request\<close>

lemma test_progress_append:
  "test_progress (s\<lparr>progress := progress s @ ps\<rparr>) t = test_progress s t @ filter (\<lambda>p. p_test_id p = t_id t) ps"
  by (simp add: test_progress_def)

lemma test_progress_posted [simp]:
  "test_progress (s\<lparr>statuses_posted := q\<rparr>) t = test_progress s t"
  by (simp add: test_progress_def)

lemma cancel_tests_effect:
  "\<exists>new posts.
     snd (cancel_tests env ts s) =
       s\<lparr>progress := progress s @ new, statuses_posted := statuses_posted s @ posts\<rparr>
     \<and> (\<forall>p \<in> set new. p_status p = canceled \<and> p_message p = ''PR closed''
           \<and> (\<exists>t \<in> set ts. t_id t = p_test_id p \<and> test_progress s t = []))
     \<and> (\<forall>q \<in> set posts. gs_state q = FAILURE
           \<and> (\<exists>t \<in> set ts. t_id t = gs_target q \<and> test_progress s t = []))"
proof (induction ts arbitrary: s)
  case Nil
  have "snd (cancel_tests env [] s) = s\<lparr>progress := progress s @ [], statuses_posted := statuses_posted s @ []\<rparr>"
    by simp
  then show ?case by (intro exI [of _ "[]"]) simp
next
  case (Cons test rest)
  show ?case
  proof (cases "test_progress s test = []")
    case False
    from Cons.IH [of s] obtain new posts where
      i: "snd (cancel_tests env rest s) =
            s\<lparr>progress := progress s @ new, statuses_posted := statuses_posted s @ posts\<rparr>"
         "\<forall>p \<in> set new. p_status p = canceled \<and> p_message p = ''PR closed''
           \<and> (\<exists>t \<in> set rest. t_id t = p_test_id p \<and> test_progress s t = [])"
         "\<forall>q \<in> set posts. gs_state q = FAILURE
           \<and> (\<exists>t \<in> set rest. t_id t = gs_target q \<and> test_progress s t = [])"
      by blast
    have "snd (cancel_tests env (test # rest) s) = snd (cancel_tests env rest s)"
      using False by simp
    with i show ?thesis
      by (intro exI [of _ new] exI [of _ posts]) auto
  next
    case True
    define row where "row = \<lparr>p_test_id = t_id test, p_status = canceled,
                             p_message = ''PR closed'', p_timestamp = naive (now env)\<rparr>"
    define post where "post = \<lparr>gs_commit = t_commit test, gs_state = FAILURE,
                     gs_description = ''Tests canceled'',
                     gs_context = ''CI - '' @ platform_value (t_platform test),
                     gs_target = t_id test\<rparr>"
    define s1 where "s1 = s\<lparr>progress := progress s @ [row]\<rparr>"
    define s2 where "s2 = s1\<lparr>statuses_posted := statuses_posted s1 @ [post]\<rparr>"
    show ?thesis
    proof (cases "post_fails env post")
      case fails: True
      have "snd (cancel_tests env (test # rest) s) = s1"
        using True fails by (simp add: Let_def post_status_def row_def post_def s1_def)
      then have "snd (cancel_tests env (test # rest) s) =
          s\<lparr>progress := progress s @ [row], statuses_posted := statuses_posted s @ []\<rparr>"
        by (simp add: s1_def)
      then show ?thesis
        using True by (intro exI [of _ "[row]"] exI [of _ "[]"]) (simp add: row_def)
    next
      case ok: False
      have step: "snd (cancel_tests env (test # rest) s) = snd (cancel_tests env rest s2)"
        using True ok by (simp add: Let_def post_status_def row_def post_def s1_def s2_def)
      from Cons.IH [of s2] obtain new posts where
        i: "snd (cancel_tests env rest s2) =
              s2\<lparr>progress := progress s2 @ new, statuses_posted := statuses_posted s2 @ posts\<rparr>"
           "\<forall>p \<in> set new. p_status p = canceled \<and> p_message p = ''PR closed''
             \<and> (\<exists>t \<in> set rest. t_id t = p_test_id p \<and> test_progress s2 t = [])"
           "\<forall>q \<in> set posts. gs_state q = FAILURE
             \<and> (\<exists>t \<in> set rest. t_id t = gs_target q \<and> test_progress s2 t = [])"
        by blast
      have sub: "\<And>t. test_progress s2 t = [] \<Longrightarrow> test_progress s t = []"
        by (simp add: s2_def s1_def test_progress_def)
      have "snd (cancel_tests env (test # rest) s) =
          s\<lparr>progress := progress s @ (row # new),
            statuses_posted := statuses_posted s @ (post # posts)\<rparr>"
        unfolding step i(1) by (simp add: s2_def s1_def)
      moreover have "\<forall>p \<in> set (row # new). p_status p = canceled \<and> p_message p = ''PR closed''
           \<and> (\<exists>t \<in> set (test # rest). t_id t = p_test_id p \<and> test_progress s t = [])"
        using i(2) True sub by (auto simp: row_def)
      moreover have "\<forall>q \<in> set (post # posts). gs_state q = FAILURE
           \<and> (\<exists>t \<in> set (test # rest). t_id t = gs_target q \<and> test_progress s t = [])"
        using i(3) True sub by (auto simp: post_def)
      ultimately show ?thesis
        by (intro exI [of _ "row # new"] exI [of _ "post # posts"]) blast
    qed
  qed
qed

text \<open>
  C9. Closing pull request \<open>pr_nr\<close> changes only the progress table and the posted
  statuses, by appending: every event appended is a canceled ``PR closed'' event, and every
  status posted a FAILURE, of a test of that pull request that had no event; a test that
  had an event keeps its events and gets no status.
\<close>

theorem closed_pr_cancels_only_unstarted_tests:
  "\<exists>new posts.
     snd (pull_request_closed env pr_nr s) =
       s\<lparr>progress := progress s @ new, statuses_posted := statuses_posted s @ posts\<rparr>
     \<and> (\<forall>p \<in> set new. p_status p = canceled \<and> p_message p = ''PR closed''
           \<and> (\<exists>t \<in> set (tests s). t_pr_nr t = pr_nr \<and> t_id t = p_test_id p
                 \<and> test_progress s t = []))
     \<and> (\<forall>q \<in> set posts. gs_state q = FAILURE
           \<and> (\<exists>t \<in> set (tests s). t_pr_nr t = pr_nr \<and> t_id t = gs_target q
                 \<and> test_progress s t = []))
     \<and> (\<forall>t \<in> set (tests s). test_progress s t \<noteq> [] \<longrightarrow>
           test_progress (snd (pull_request_closed env pr_nr s)) t = test_progress s t
           \<and> (\<forall>q \<in> set posts. gs_target q \<noteq> t_id t))"
proof -
  let ?ts = "filter (\<lambda>t. t_pr_nr t = pr_nr) (tests s)"
  from cancel_tests_effect [of env ?ts s]
  obtain new posts where
    a0: "snd (cancel_tests env ?ts s) =
          s\<lparr>progress := progress s @ new, statuses_posted := statuses_posted s @ posts\<rparr>"
    and b0: "\<forall>p \<in> set new. p_status p = canceled \<and> p_message p = ''PR closed''
           \<and> (\<exists>t \<in> set ?ts. t_id t = p_test_id p \<and> test_progress s t = [])"
    and c0: "\<forall>q \<in> set posts. gs_state q = FAILURE
           \<and> (\<exists>t \<in> set ?ts. t_id t = gs_target q \<and> test_progress s t = [])"
    by blast
  have a: "snd (pull_request_closed env pr_nr s) =
          s\<lparr>progress := progress s @ new, statuses_posted := statuses_posted s @ posts\<rparr>"
    using a0 by (simp add: pull_request_closed_def)
  have b: "\<forall>p \<in> set new. p_status p = canceled \<and> p_message p = ''PR closed''
           \<and> (\<exists>t \<in> set (tests s). t_pr_nr t = pr_nr \<and> t_id t = p_test_id p
                 \<and> test_progress s t = [])"
    using b0 by fastforce
  have c: "\<forall>q \<in> set posts. gs_state q = FAILURE
           \<and> (\<exists>t \<in> set (tests s). t_pr_nr t = pr_nr \<and> t_id t = gs_target q
                 \<and> test_progress s t = [])"
    using c0 by fastforce
  have same: "\<And>t u. t_id t = t_id u \<Longrightarrow> test_progress s t = test_progress s u"
    by (simp add: test_progress_def)
  have d: "\<forall>t \<in> set (tests s). test_progress s t \<noteq> [] \<longrightarrow>
           test_progress (snd (pull_request_closed env pr_nr s)) t = test_progress s t
           \<and> (\<forall>q \<in> set posts. gs_target q \<noteq> t_id t)"
  proof (intro ballI impI conjI)
    fix t assume t: "t \<in> set (tests s)" "test_progress s t \<noteq> []"
    have "filter (\<lambda>p. p_test_id p = t_id t) new = []"
    proof (rule ccontr)
      assume "filter (\<lambda>p. p_test_id p = t_id t) new \<noteq> []"
      then obtain p where "p \<in> set new" "p_test_id p = t_id t"
        by (auto simp: filter_empty_conv)
      with b obtain u where "t_id u = t_id t" "test_progress s u = []" by force
      with same [of u t] t(2) show False by simp
    qed
    then show "test_progress (snd (pull_request_closed env pr_nr s)) t = test_progress s t"
      unfolding a by (simp add: test_progress_def)
    fix q assume "q \<in> set posts"
    with c obtain u where u: "t_id u = gs_target q" "test_progress s u = []" by force
    show "gs_target q \<noteq> t_id t"
    proof
      assume "gs_target q = t_id t"
      with u same [of u t] t(2) show False by simp
    qed
  qed
  from a b c d show ?thesis by blast
qed

subsection \<open>Examples of the scheduling pass and of the endpoint\<close>

lemmas scheduler_defs = kvm_processor_def check_running_def drop_stale_def kvm_first_def schedule_def
  select_test_def main_fork_def first_by_id_def finished_tests_def launch_def
  generate_test_files_def written_categories_def single_test_def entry_node_def file_node_def
  last_commit_files_def last_files_def multi_test_def save_xml_to_file_def duplicate_lease_def
  path_join_def str_int_def str_nat.simps str_bool_lower_def map_filter_simps gd_first_def
  and_then_def post_status_def like_ci_def lower_def

lemmas example_defs4 = example_defs3 late_env_def main_test_def fork_test_def queue_state_def
  baseline_state_def

lemmas example_defs5 = example_defs4 idle_env_def closing_state_def ready_state_def done_state_def

text \<open>
  C3 on examples: the same lease seen 88 seconds and 9988 seconds after its start, with a
  limit of 120 minutes.
\<close>

theorem expired_lease_reclaimed_witness:
  "kvm_first ''linux-vm'' leased_state
     = Some \<lparr>k_name = ''linux-vm'', k_test_id = 7, k_timestamp = 12,
             k_timestamp_prep_finished = None, k_timestamp_build_finished = None\<rparr>
   \<and> now example_env - 12 < of_int (kvm_max_runtime example_env) * 60
   \<and> kvm_processor example_env ''linux-vm'' linux leased_state = (Returned (), leased_state)
   \<and> now late_env - 12 \<ge> of_int (kvm_max_runtime late_env) * 60
   \<and> kvm_processor late_env ''linux-vm'' linux leased_state =
       (Returned (),
        leased_state\<lparr>progress := progress leased_state @
                        [\<lparr>p_test_id = 7, p_status = canceled, p_message = ''Runtime exceeded'',
                          p_timestamp = default_timestamp late_env\<rparr>],
                      kvm := [], vm_calls := [Destroy]\<rparr>)"
proof -
  let ?lease = "\<lparr>k_name = ''linux-vm'', k_test_id = 7, k_timestamp = 12,
             k_timestamp_prep_finished = None, k_timestamp_build_finished = None\<rparr>"
  have n: "''linux-vm'' \<noteq> []" by simp
  have m: "\<forall>m. find (\<lambda>m. m_platform m = linux) (maintenance_modes leased_state) = Some m
             \<longrightarrow> \<not> m_disabled m"
    by (simp add: example_defs4)
  have e: "conn_ok example_env" "vm_found example_env" "\<not> vm_shutoff example_env"
    "conn_ok late_env" "vm_found late_env" "\<not> vm_shutoff late_env" "destroy_ok late_env"
    by (simp_all add: example_defs4)
  have l: "kvm_first ''linux-vm'' leased_state = Some ?lease"
    by (simp add: kvm_first_def example_defs4)
  have a: "now example_env - k_timestamp ?lease < of_int (kvm_max_runtime example_env) * 60"
    "now late_env - k_timestamp ?lease \<ge> of_int (kvm_max_runtime late_env) * 60"
    by (simp_all add: example_defs4)
  from expired_lease_reclaimed [OF n m e(1) e(2) e(3) l] a(1)
  have b: "kvm_processor example_env ''linux-vm'' linux leased_state = (Returned (), leased_state)"
    by blast
  from expired_lease_reclaimed [OF n m e(4) e(5) e(6) l] a(2) e(7)
  have "kvm_processor late_env ''linux-vm'' linux leased_state =
      schedule late_env ''linux-vm'' linux
        (drop_stale ''linux-vm''
           (leased_state\<lparr>progress := progress leased_state @
                          [\<lparr>p_test_id = k_test_id ?lease, p_status = canceled,
                            p_message = ''Runtime exceeded'',
                            p_timestamp = default_timestamp late_env\<rparr>],
                        kvm := remove1 ?lease (kvm leased_state),
                        vm_calls := vm_calls leased_state @ [Destroy]\<rparr>))"
    by (simp add: Let_def)
  also have "\<dots> = (Returned (),
        leased_state\<lparr>progress := progress leased_state @
                        [\<lparr>p_test_id = 7, p_status = canceled, p_message = ''Runtime exceeded'',
                          p_timestamp = default_timestamp late_env\<rparr>],
                      kvm := [], vm_calls := [Destroy]\<rparr>)"
    by (simp add: scheduler_defs example_defs4 Let_def)
  finally have c: "kvm_processor late_env ''linux-vm'' linux leased_state =
       (Returned (),
        leased_state\<lparr>progress := progress leased_state @
                        [\<lparr>p_test_id = 7, p_status = canceled, p_message = ''Runtime exceeded'',
                          p_timestamp = default_timestamp late_env\<rparr>],
                      kvm := [], vm_calls := [Destroy]\<rparr>)" .
  from l a b c show ?thesis by simp
qed

text \<open>
  C7 on examples. The machine is off and has no lease. Of the unfinished tests 7, 5 and 3
  the pass launches test 5, the oldest of the main repository, although test 3 of a fork
  is older: the machine is created and the lease is that of test 5. With no unfinished
  test the pass changes nothing.
\<close>

theorem oldest_unfinished_test_selected_witness:
  "check_running idle_env ''linux-vm'' ready_state = (True, ready_state)
   \<and> main_fork idle_env ready_state
       = Some \<lparr>fk_id = 1, fk_github = ''https://github.com/CCExtractor/ccextractor.git''\<rparr>
   \<and> unfinished_tests linux ready_state = [fork_test 7, main_test 5, fork_test 3]
   \<and> kvm_processor idle_env ''linux-vm'' linux ready_state
       = launch idle_env ''linux-vm'' linux (main_test 5) ready_state
   \<and> kvm (snd (kvm_processor idle_env ''linux-vm'' linux ready_state))
       = [\<lparr>k_name = ''linux-vm'', k_test_id = 5, k_timestamp = 100,
           k_timestamp_prep_finished = None, k_timestamp_build_finished = None\<rparr>]
   \<and> vm_calls (snd (kvm_processor idle_env ''linux-vm'' linux ready_state))
       = [RevertToSnapshot, Create]
   \<and> check_running idle_env ''linux-vm'' done_state = (True, done_state)
   \<and> unfinished_tests linux done_state = []
   \<and> kvm_processor idle_env ''linux-vm'' linux done_state = (Returned (), done_state)"
proof -
  let ?fork = "\<lparr>fk_id = 1, fk_github = ''https://github.com/CCExtractor/ccextractor.git''\<rparr>"
  have n: "''linux-vm'' \<noteq> []" by simp
  have m: "\<forall>m. find (\<lambda>m. m_platform m = linux) (maintenance_modes ready_state) = Some m
             \<longrightarrow> \<not> m_disabled m"
    "\<forall>m. find (\<lambda>m. m_platform m = linux) (maintenance_modes done_state) = Some m
             \<longrightarrow> \<not> m_disabled m"
    by (simp_all add: example_defs5)
  have e: "conn_ok idle_env" "vm_found idle_env"
    by (simp_all add: example_defs5)
  have r: "check_running idle_env ''linux-vm'' ready_state = (True, ready_state)"
    "check_running idle_env ''linux-vm'' done_state = (True, done_state)"
    by (simp_all add: check_running_def example_defs5)
  have f: "main_fork idle_env ready_state = Some ?fork"
    "main_fork idle_env done_state = Some ?fork"
    by (simp_all add: main_fork_def like_ci_def lower_def Let_def example_defs5)
  have d: "drop_stale ''linux-vm'' ready_state = ready_state"
    "drop_stale ''linux-vm'' done_state = done_state"
    by (simp_all add: drop_stale_def kvm_first_def example_defs5)
  have u: "unfinished_tests linux ready_state = [fork_test 7, main_test 5, fork_test 3]"
    "unfinished_tests linux done_state = []"
    by (simp_all add: unfinished_tests_def example_defs5)
  from oldest_unfinished_test_selected [OF n m(1) e r(1) f(1)]
  obtain t where t: "t \<in> set [fork_test 7, main_test 5, fork_test 3]" "t_fork_id t = 1"
    and k: "kvm_processor idle_env ''linux-vm'' linux ready_state =
              (if t_test_type t = pull_request \<and> t_pr_nr t = 0
               then (Returned (), ready_state\<lparr>tests := remove1 t (tests ready_state)\<rparr>)
               else launch idle_env ''linux-vm'' linux t ready_state)"
    unfolding Let_def d u by (auto simp: main_test_def fork_test_def)
  from t have "t = main_test 5"
    by (auto simp: main_test_def fork_test_def)
  with k have a: "kvm_processor idle_env ''linux-vm'' linux ready_state
       = launch idle_env ''linux-vm'' linux (main_test 5) ready_state"
    by (simp add: main_test_def)
  have b: "kvm (snd (launch idle_env ''linux-vm'' linux (main_test 5) ready_state))
       = [\<lparr>k_name = ''linux-vm'', k_test_id = 5, k_timestamp = 100,
           k_timestamp_prep_finished = None, k_timestamp_build_finished = None\<rparr>]"
    "vm_calls (snd (launch idle_env ''linux-vm'' linux (main_test 5) ready_state))
       = [RevertToSnapshot, Create]"
    by (simp_all add: scheduler_defs example_defs5 Let_def)
  from oldest_unfinished_test_selected [OF n m(2) e r(2) f(2)]
  have c: "kvm_processor idle_env ''linux-vm'' linux done_state = (Returned (), done_state)"
    unfolding Let_def d u by simp
  from r f(1) u a b c show ?thesis by simp
qed


text \<open>
  C4 as stated fails: the run of the pinned commit left no passing file, only a file that
  did not match, and the test file written by the pass names that file, not the canonical
  one.
\<close>

theorem failing_baseline_file_replaces_canonical:
  "test_result_files baseline_state =
     [\<lparr>f_test_id = 1, f_regression_test_id = 1, f_regression_test_output_id = 5,
       f_expected = ''good'', f_got = Some ''new''\<rparr>]
   \<and> map fst (xml_files (snd (kvm_processor idle_env ''linux-vm'' linux baseline_state)))
       = [''/repository/vm_data/linux-vm/ci-tests/Broken.xml'',
          ''/repository/vm_data/linux-vm/ci-tests/TestAll.xml'']
   \<and> correct_references
         (snd (hd (xml_files (snd (kvm_processor idle_env ''linux-vm'' linux baseline_state)))))
       = [(Some ''1'', Some ''5'', ''new.txt'')]
   \<and> filename_correct idle_env \<lparr>o_id = 5, o_regression_id = 1, o_correct = ''good'', o_ignore = False\<rparr>
       = ''good.txt''
   \<and> ''new.txt'' \<noteq> ''good.txt''"
  by (simp add: scheduler_defs example_defs5 Let_def correct_references_def children_named_def)

text \<open>
  C4 as amended, on the same data: the pinned commit is \<open>base\<close>, its run is test 1, and
  the pass launches test 7.
\<close>

theorem correct_reference_is_baseline_mismatch_witness:
  "check_running idle_env ''linux-vm'' baseline_state = (True, baseline_state)
   \<and> select_test idle_env linux (drop_stale ''linux-vm'' baseline_state) = Inr (Some example_test)
   \<and> gd_first (''fetch_commit_'' @ platform_value linux) baseline_state
       = Some \<lparr>gd_key = ''fetch_commit_linux'', gd_value = Txt ''base''\<rparr>
   \<and> find (\<lambda>t. Txt (t_commit t) = Txt ''base'' \<and> t_platform t = linux) (tests baseline_state)
       = Some (main_test 1)
   \<and> map (apsnd correct_references)
        (xml_files (snd (kvm_processor idle_env ''linux-vm'' linux baseline_state)))
       = [(''/repository/vm_data/linux-vm/ci-tests/Broken.xml'', [(Some ''1'', Some ''5'', ''new.txt'')]),
          (''/repository/vm_data/linux-vm/ci-tests/TestAll.xml'', [])]"
proof -
  let ?pin = "\<lparr>gd_key = ''fetch_commit_linux'', gd_value = Txt ''base''\<rparr>"
  have n: "''linux-vm'' \<noteq> []" by simp
  have m: "\<forall>m. find (\<lambda>m. m_platform m = linux) (maintenance_modes baseline_state) = Some m
             \<longrightarrow> \<not> m_disabled m"
    by (simp add: example_defs5)
  have e: "conn_ok idle_env" "vm_found idle_env" "has_current_snapshot idle_env" "revert_ok idle_env"
    by (simp_all add: example_defs5)
  have r: "check_running idle_env ''linux-vm'' baseline_state = (True, baseline_state)"
    by (simp add: check_running_def example_defs5)
  have c: "select_test idle_env linux (drop_stale ''linux-vm'' baseline_state)
             = Inr (Some example_test)"
    by (simp add: scheduler_defs example_defs5 Let_def)
  have v: "\<not> (t_test_type example_test = pull_request \<and> t_pr_nr example_test = 0)"
    by (simp add: example_test_def)
  have g: "gd_first (''fetch_commit_'' @ platform_value linux) baseline_state = Some ?pin"
    by (simp add: gd_first_def example_defs5)
  have b: "find (\<lambda>t. Txt (t_commit t) = gd_value ?pin \<and> t_platform t = linux) (tests baseline_state)
             = Some (main_test 1)"
    by (simp add: example_defs5)
  from correct_reference_is_baseline_mismatch [OF n m e(1,2) r c v e(3,4) g b]
  have "map (apsnd correct_references)
        (xml_files (snd (kvm_processor idle_env ''linux-vm'' linux baseline_state)))
       = [(''/repository/vm_data/linux-vm/ci-tests/Broken.xml'', [(Some ''1'', Some ''5'', ''new.txt'')]),
          (''/repository/vm_data/linux-vm/ci-tests/TestAll.xml'', [])]"
    by (simp add: written_categories_def mismatches_of_def map_filter_simps path_join_def
        str_int_def str_nat.simps example_defs5)
  with r c g b show ?thesis by simp
qed

text \<open>
  C9 on an example: of the tests 7 and 8 of pull request 12, only test 8, which has not
  started, is canceled.
\<close>

theorem closed_pr_cancels_only_unstarted_tests_witness:
  "test_progress closing_state (fork_test 7) \<noteq> []
   \<and> test_progress (snd (pull_request_closed example_env 12 closing_state)) (fork_test 7)
       = test_progress closing_state (fork_test 7)
   \<and> progress (snd (pull_request_closed example_env 12 closing_state))
       = [event 7 preparation ''start'' 15,
          \<lparr>p_test_id = 8, p_status = canceled, p_message = ''PR closed'', p_timestamp = naive 100\<rparr>]
   \<and> map gs_target (statuses_posted (snd (pull_request_closed example_env 12 closing_state))) = [8]"
proof -
  have a: "fork_test 7 \<in> set (tests closing_state)"
    "test_progress closing_state (fork_test 7) \<noteq> []"
    by (simp_all add: test_progress_def example_defs5)
  from closed_pr_cancels_only_unstarted_tests [of example_env 12 closing_state] a
  have b: "test_progress (snd (pull_request_closed example_env 12 closing_state)) (fork_test 7)
       = test_progress closing_state (fork_test 7)"
    by blast
  have c: "progress (snd (pull_request_closed example_env 12 closing_state))
       = [event 7 preparation ''start'' 15,
          \<lparr>p_test_id = 8, p_status = canceled, p_message = ''PR closed'', p_timestamp = naive 100\<rparr>]"
    "map gs_target (statuses_posted (snd (pull_request_closed example_env 12 closing_state))) = [8]"
    by (simp_all add: pull_request_closed_def test_progress_def post_status_def example_defs5 Let_def)
  from a b c show ?thesis by simp
qed

text \<open>
  C10. An equality report with the right token and both ids is answered ``OK'' whether or
  not its \<open>test_file_id\<close> is the id of a known output; when it is not, the state is left
  as it was.
\<close>

theorem unknown_output_equality_dropped:
  assumes "find (\<lambda>t. t_id t = test_id) (tests s) = Some test"
    and "t_token test = token"
    and "rq_type rq = Some ''equality''"
    and "rq_test_id rq = Some rt" and "rq_test_file_id rq = Some out"
  shows "((\<forall>x \<in> set (regression_test_outputs s). o_id x \<noteq> out)
           \<longrightarrow> progress_reporter env test_id token rq s = (Returned ''OK'', s))
    \<and> fst (progress_reporter env test_id token rq s) = Returned ''OK''"
proof
  show "(\<forall>x \<in> set (regression_test_outputs s). o_id x \<noteq> out)
           \<longrightarrow> progress_reporter env test_id token rq s = (Returned ''OK'', s)"
  proof
    assume "\<forall>x \<in> set (regression_test_outputs s). o_id x \<noteq> out"
    then have "rto_first out s = None"
      by (auto simp: rto_first_def find_None_iff)
    then show "progress_reporter env test_id token rq s = (Returned ''OK'', s)"
      using assms
      by (simp add: progress_reporter_def equality_type_request_def and_then_def)
  qed
  show "fst (progress_reporter env test_id token rq s) = Returned ''OK''"
    using assms
    by (simp add: progress_reporter_def equality_type_request_def and_then_def
        split: option.splits)
qed

text \<open>C10 on examples: the unknown output 99 and the known output 5.\<close>

theorem unknown_output_equality_dropped_witness:
  "tests baseline_state = [main_test 1, example_test]
   \<and> map o_id (regression_test_outputs baseline_state) = [5]
   \<and> progress_reporter example_env 7 ''secret'' (equality_report 1 99) baseline_state
       = (Returned ''OK'', baseline_state)
   \<and> fst (progress_reporter example_env 7 ''secret'' (equality_report 1 5) baseline_state)
       = Returned ''OK''
   \<and> length (test_result_files
        (snd (progress_reporter example_env 7 ''secret'' (equality_report 1 5) baseline_state))) = 2"
proof -
  have a: "find (\<lambda>t. t_id t = 7) (tests baseline_state) = Some example_test"
    "t_token example_test = ''secret''"
    by (simp_all add: example_defs5)
  have r: "rq_type (equality_report 1 99) = Some ''equality''"
    "rq_test_id (equality_report 1 99) = Some 1" "rq_test_file_id (equality_report 1 99) = Some 99"
    "rq_type (equality_report 1 5) = Some ''equality''"
    "rq_test_id (equality_report 1 5) = Some 1" "rq_test_file_id (equality_report 1 5) = Some 5"
    by (simp_all add: equality_report_def)
  have n: "\<forall>x \<in> set (regression_test_outputs baseline_state). o_id x \<noteq> 99"
    by (simp add: example_defs5)
  from unknown_output_equality_dropped [OF a r(1) r(2) r(3), of example_env] n
  have b: "progress_reporter example_env 7 ''secret'' (equality_report 1 99) baseline_state
       = (Returned ''OK'', baseline_state)"
    by blast
  from unknown_output_equality_dropped [OF a r(4) r(5) r(6), of example_env]
  have c: "fst (progress_reporter example_env 7 ''secret'' (equality_report 1 5) baseline_state)
       = Returned ''OK''"
    by blast
  have d: "length (test_result_files
        (snd (progress_reporter example_env 7 ''secret'' (equality_report 1 5) baseline_state))) = 2"
    by (simp add: progress_reporter_def equality_type_request_def rto_first_def and_then_def
        example_defs5)
  have e: "tests baseline_state = [main_test 1, example_test]"
    "map o_id (regression_test_outputs baseline_state) = [5]"
    by (simp_all add: example_defs5)
  from b c d e show ?thesis by simp
qed

end
